theory Spec2Isabelle
  imports Main "HOL-Library.Word"
begin

unbundle bit_operations_syntax

section \<open>Values, syntax trees and the store\<close>

text \<open>
  The evaluator of \<^verbatim>\<open>index.js\<close> walks a syntax tree and computes host values. The
  model keeps one type of values, as the host does: a result of \<^verbatim>\<open>walk\<close> is a value,
  and a \<^verbatim>\<open>ReturnValue\<close> struct (the control signal) is one of the values. Numbers
  are the integer-valued ones (\<open>Num\<close>) and \<open>NaN\<close>; containers live in a store and are
  named by their address (\<open>Ref\<close>). An error object thrown by the host and the host's
  global object are opaque values.
\<close>

datatype error = UnsupportedExpression | InfiniteLoop | TypeError

datatype val =
    Undefined
  | Null
  | Bool bool
  | Num int
  | NaN
  | Str string
  | Ref nat
  | ReturnValue (rvType: string) (rvValue: val)
  | HostError error
  | HostGlobal

text \<open>
  The syntax nodes, one constructor per \<^verbatim>\<open>node.type\<close> that \<^verbatim>\<open>walk\<close> dispatches on;
  \<open>Other\<close> is a node of any other type. A child that the parser may leave out is
  a \<open>node option\<close>. Names that the source reads as \<^verbatim>\<open>x.name\<close> of an identifier child
  (\<^verbatim>\<open>node.id.name\<close>, \<^verbatim>\<open>node.params.map(getName)\<close>, \<^verbatim>\<open>declaration.id.name\<close>,
  \<^verbatim>\<open>catchClause.param.name\<close>) are strings.
\<close>

datatype node =
    Program "node list"
  | BlockStatement "node list"
  | EmptyStatement
  | FunctionDeclaration string "string list" node
  | FunctionExpression "string list" node
  | ReturnStatement "node option"
  | BreakStatement
  | ContinueStatement
  | ExpressionStatement node
  | AssignmentExpression string node node
  | UpdateExpression string node
  | VariableDeclaration "(string \<times> node option) list"
  | IfStatement node node "node option"
  | ForStatement "node option" "node option" "node option" node
  | ForInStatement node node node
  | WhileStatement node node
  | TryStatement node "(string \<times> node) list" "node option"
  | Literal val
  | UnaryExpression string node
  | ArrayExpression "node option list"
  | ObjectExpression "(string \<times> node option) list"
  | NewExpression node "node list"
  | BinaryExpression string node node
  | LogicalExpression string node node
  | ThisExpression
  | Identifier string
  | CallExpression node "node list"
  | MemberExpression node node bool
  | ConditionalExpression node node node
  | Other string

text \<open>
  A container of the store: its own entries in insertion order (name, value, enumerable
  flag), its prototype link, and what kind of host object it is. A function made by
  \<^verbatim>\<open>getFunction\<close> carries the three things its closure captures.
\<close>

type_synonym addr = nat

record closure =
  fn_params :: "string list"
  fn_body :: node
  fn_scope :: addr

datatype kind = Plain | Function closure | Array

record obj =
  props :: "(string \<times> val \<times> bool) list"
  proto :: "addr option"
  kind :: kind

type_synonym store = "obj list"

text \<open>
  What a step of the evaluation gives: a value and the store after it (\<open>Ret\<close>), a
  thrown host error and the store at the throw (\<open>Throw\<close>), \<open>Timeout\<close> when the fuel
  of the model ran out, and \<open>Unmodelled\<close> when the step depends on host behaviour the
  model does not cover (listed where it arises). Neither of the last two is a host
  event: no guest statement can observe them.
\<close>

datatype 'a outcome = Timeout | Unmodelled | Throw error store | Ret 'a store

fun andThen :: "'a outcome \<Rightarrow> ('a \<Rightarrow> store \<Rightarrow> 'b outcome) \<Rightarrow> 'b outcome" where
  "andThen Timeout f = Timeout"
| "andThen Unmodelled f = Unmodelled"
| "andThen (Throw e s) f = Throw e s"
| "andThen (Ret v s) f = f v s"

fun host :: "'a option \<Rightarrow> store \<Rightarrow> 'a outcome" where
  "host None s = Unmodelled"
| "host (Some v) s = Ret v s"

section \<open>Host operators on the modelled values\<close>

text \<open>
  The operators that \<^verbatim>\<open>walk\<close> hands to the host, on the values of the model. A result
  \<open>None\<close> says that the host's answer lies outside the model: an operand is an object
  (its conversion runs host or guest code), or a number leaves the integers that a
  double holds exactly.
\<close>

fun truthy :: "val \<Rightarrow> bool" where
  "truthy Undefined = False"
| "truthy Null = False"
| "truthy (Bool b) = b"
| "truthy (Num i) = (i \<noteq> 0)"
| "truthy NaN = False"
| "truthy (Str s) = (s \<noteq> [])"
| "truthy _ = True"

fun isReturnValue :: "val \<Rightarrow> bool" where
  "isReturnValue (ReturnValue t v) = True"
| "isReturnValue _ = False"

fun isObject :: "val \<Rightarrow> bool" where
  "isObject (Ref a) = True"
| "isObject (ReturnValue t v) = True"
| "isObject (HostError e) = True"
| "isObject HostGlobal = True"
| "isObject _ = False"

definition safe :: "int \<Rightarrow> val option" where
  "safe i = (if \<bar>i\<bar> < 2 ^ 53 then Some (Num i) else None)"

definition digitVal :: "char \<Rightarrow> nat option" where
  "digitVal c = map_of [(CHR ''0'', 0), (CHR ''1'', 1), (CHR ''2'', 2), (CHR ''3'', 3),
     (CHR ''4'', 4), (CHR ''5'', 5), (CHR ''6'', 6), (CHR ''7'', 7), (CHR ''8'', 8),
     (CHR ''9'', 9)] c"

fun parseDigits :: "nat \<Rightarrow> string \<Rightarrow> nat option" where
  "parseDigits acc [] = Some acc"
| "parseDigits acc (c # cs) =
     (case digitVal c of None \<Rightarrow> None | Some d \<Rightarrow> parseDigits (10 * acc + d) cs)"

definition plainChar :: "char \<Rightarrow> bool" where
  "plainChar c = (digitVal c = None \<and> c \<noteq> CHR ''I'' \<and> 32 < (of_char c :: nat)
     \<and> (of_char c :: nat) < 127)"

definition stringToNumber :: "string \<Rightarrow> val option" where
  "stringToNumber str =
     (if str = [] then Some (Num 0)
      else case parseDigits 0 str of
        Some k \<Rightarrow> safe (int k)
      | None \<Rightarrow>
         (if hd str = CHR ''-'' \<and> tl str \<noteq> [] \<and> parseDigits 0 (tl str) \<noteq> None
          then safe (- int (the (parseDigits 0 (tl str))))
          else if list_all plainChar str then Some NaN
          else None))"

fun toNumber :: "val \<Rightarrow> val option" where
  "toNumber Undefined = Some NaN"
| "toNumber Null = Some (Num 0)"
| "toNumber (Bool b) = Some (Num (if b then 1 else 0))"
| "toNumber (Num i) = Some (Num i)"
| "toNumber NaN = Some NaN"
| "toNumber (Str str) = stringToNumber str"
| "toNumber _ = None"

definition digitChar :: "nat \<Rightarrow> char" where
  "digitChar d = ''0123456789'' ! (d mod 10)"

fun digits :: "nat \<Rightarrow> string" where
  "digits k = (if k < 10 then [digitChar k] else digits (k div 10) @ [digitChar k])"

declare digits.simps [simp del]

definition intToString :: "int \<Rightarrow> string" where
  "intToString i = (if i < 0 then CHR ''-'' # digits (nat (- i)) else digits (nat i))"

fun toStringJS :: "val \<Rightarrow> string option" where
  "toStringJS Undefined = Some ''undefined''"
| "toStringJS Null = Some ''null''"
| "toStringJS (Bool b) = Some (if b then ''true'' else ''false'')"
| "toStringJS (Num i) = (if \<bar>i\<bar> < 2 ^ 53 then Some (intToString i) else None)"
| "toStringJS NaN = Some ''NaN''"
| "toStringJS (Str str) = Some str"
| "toStringJS _ = None"

definition toInt32 :: "val \<Rightarrow> int" where
  "toInt32 v = (case v of Num i \<Rightarrow> sint (word_of_int i :: 32 word) | _ \<Rightarrow> 0)"

text \<open>
  Strict equality (\<^verbatim>\<open>===\<close>). Two error objects or two signal structs are equal only
  when they are the same host object, which the model does not track.
\<close>

fun strictEquals :: "val \<Rightarrow> val \<Rightarrow> bool option" where
  "strictEquals NaN r = Some False"
| "strictEquals l NaN = Some False"
| "strictEquals (HostError e) (HostError e') = None"
| "strictEquals (ReturnValue t v) (ReturnValue t' v') = None"
| "strictEquals l r = Some (l = r)"

text \<open>Loose equality (\<^verbatim>\<open>==\<close>), the abstract equality comparison of the host language.\<close>

fun typeTag :: "val \<Rightarrow> nat" where
  "typeTag Undefined = 0"
| "typeTag Null = 1"
| "typeTag (Bool b) = 2"
| "typeTag (Num i) = 3"
| "typeTag NaN = 3"
| "typeTag (Str str) = 4"
| "typeTag _ = 5"

definition unbool :: "val \<Rightarrow> val" where
  "unbool v = (case v of Bool b \<Rightarrow> Num (if b then 1 else 0) | _ \<Rightarrow> v)"

definition looseEqualsNB :: "val \<Rightarrow> val \<Rightarrow> bool option" where
  "looseEqualsNB l r =
     (if typeTag l = typeTag r then strictEquals l r
      else if typeTag l \<le> 1 \<and> typeTag r \<le> 1 then Some True
      else if typeTag l = 3 \<and> typeTag r = 4 then
        (case toNumber r of None \<Rightarrow> None | Some n \<Rightarrow> strictEquals l n)
      else if typeTag l = 4 \<and> typeTag r = 3 then
        (case toNumber l of None \<Rightarrow> None | Some n \<Rightarrow> strictEquals n r)
      else if (typeTag l = 5 \<and> typeTag r \<in> {3, 4}) \<or> (typeTag r = 5 \<and> typeTag l \<in> {3, 4})
        then None
      else Some False)"

definition looseEquals :: "val \<Rightarrow> val \<Rightarrow> bool option" where
  "looseEquals l r =
     (if typeTag l = typeTag r then strictEquals l r else looseEqualsNB (unbool l) (unbool r))"

text \<open>Arithmetic on numbers that stay integers; \<^verbatim>\<open>+\<close> concatenates when a side is a string.\<close>

definition arith :: "(int \<Rightarrow> int \<Rightarrow> val option) \<Rightarrow> val \<Rightarrow> val \<Rightarrow> val option" where
  "arith f l r =
     (case (toNumber l, toNumber r) of
        (Some (Num a), Some (Num b)) \<Rightarrow> f a b
      | (Some _, Some _) \<Rightarrow> Some NaN
      | _ \<Rightarrow> None)"

definition addition :: "val \<Rightarrow> val \<Rightarrow> val option" where
  "addition l r =
     (if isObject l \<or> isObject r then None
      else if typeTag l = 4 \<or> typeTag r = 4 then
        (case (toStringJS l, toStringJS r) of (Some a, Some b) \<Rightarrow> Some (Str (a @ b)) | _ \<Rightarrow> None)
      else arith (\<lambda>a b. safe (a + b)) l r)"

definition subtraction :: "val \<Rightarrow> val \<Rightarrow> val option" where
  "subtraction = arith (\<lambda>a b. safe (a - b))"

definition multiplication :: "val \<Rightarrow> val \<Rightarrow> val option" where
  "multiplication = arith (\<lambda>a b. safe (a * b))"

definition division :: "val \<Rightarrow> val \<Rightarrow> val option" where
  "division = arith (\<lambda>a b. if b \<noteq> 0 \<and> b dvd a then safe (a div b) else None)"

definition remainder :: "val \<Rightarrow> val \<Rightarrow> val option" where
  "remainder = arith (\<lambda>a b. if b = 0 then Some NaN else safe (sgn a * (\<bar>a\<bar> mod \<bar>b\<bar>)))"

definition bitwise :: "(32 word \<Rightarrow> 32 word \<Rightarrow> 32 word) \<Rightarrow> val \<Rightarrow> val \<Rightarrow> val option" where
  "bitwise f l r =
     (case (toNumber l, toNumber r) of
        (Some a, Some b) \<Rightarrow> Some (Num (sint (f (word_of_int (toInt32 a)) (word_of_int (toInt32 b)))))
      | _ \<Rightarrow> None)"

fun stringLess :: "string \<Rightarrow> string \<Rightarrow> bool" where
  "stringLess [] [] = False"
| "stringLess [] (d # ds) = True"
| "stringLess (c # cs) [] = False"
| "stringLess (c # cs) (d # ds) =
     (if c = d then stringLess cs ds else (of_char c :: nat) < of_char d)"

text \<open>
  The abstract relational comparison \<^verbatim>\<open>l < r\<close>: \<open>Some None\<close> is the host's
  \<^verbatim>\<open>undefined\<close> answer (a side is \<open>NaN\<close>).
\<close>

definition lessThanJS :: "val \<Rightarrow> val \<Rightarrow> bool option option" where
  "lessThanJS l r =
     (if isObject l \<or> isObject r then None
      else if typeTag l = 4 \<and> typeTag r = 4 then
        (case (l, r) of (Str a, Str b) \<Rightarrow> Some (Some (stringLess a b)) | _ \<Rightarrow> None)
      else case (toNumber l, toNumber r) of
        (Some (Num a), Some (Num b)) \<Rightarrow> Some (Some (a < b))
      | (Some _, Some _) \<Rightarrow> Some None
      | _ \<Rightarrow> None)"

definition relational :: "bool \<Rightarrow> bool \<Rightarrow> val \<Rightarrow> val \<Rightarrow> val option" where
  "relational swap negate l r =
     (case (if swap then lessThanJS r l else lessThanJS l r) of
        None \<Rightarrow> None
      | Some None \<Rightarrow> Some (Bool False)
      | Some (Some b) \<Rightarrow> Some (Bool (if negate then \<not> b else b)))"

definition obj_at :: "store \<Rightarrow> addr \<Rightarrow> obj option" where
  "obj_at s a = (if a < length s then Some (s ! a) else None)"

definition isFunction :: "store \<Rightarrow> val \<Rightarrow> bool" where
  "isFunction s v =
     (case v of
        Ref a \<Rightarrow> (case obj_at s a of
                    Some ob \<Rightarrow> (case kind ob of Function c \<Rightarrow> True | _ \<Rightarrow> False)
                  | None \<Rightarrow> False)
      | _ \<Rightarrow> False)"

definition typeOf :: "store \<Rightarrow> val \<Rightarrow> string" where
  "typeOf s v =
     (case v of
        Undefined \<Rightarrow> ''undefined''
      | Bool b \<Rightarrow> ''boolean''
      | Num i \<Rightarrow> ''number''
      | NaN \<Rightarrow> ''number''
      | Str str \<Rightarrow> ''string''
      | _ \<Rightarrow> (if isFunction s v then ''function'' else ''object''))"

section \<open>The store: entries, prototype links, host reads and writes\<close>

definition own :: "store \<Rightarrow> addr \<Rightarrow> string \<Rightarrow> (val \<times> bool) option" where
  "own s a k = (case obj_at s a of None \<Rightarrow> None | Some ob \<Rightarrow> map_of (props ob) k)"

text \<open>
  \<^verbatim>\<open>hasOwnProperty\<close> and \<^verbatim>\<open>propertyIsEnumerable\<close> of \<^verbatim>\<open>index.js\<close> call the host's methods of the
  same names. In the model only the containers of the store hold entries.
\<close>

definition hasOwnProperty :: "store \<Rightarrow> val \<Rightarrow> string \<Rightarrow> bool" where
  "hasOwnProperty s object k =
     (case object of
        Ref a \<Rightarrow> (case own s a k of Some entry \<Rightarrow> True | None \<Rightarrow> False)
      | _ \<Rightarrow> False)"

definition propertyIsEnumerable :: "store \<Rightarrow> val \<Rightarrow> string \<Rightarrow> bool" where
  "propertyIsEnumerable s object k =
     (case object of
        Ref a \<Rightarrow> (case own s a k of Some (v, e) \<Rightarrow> e | None \<Rightarrow> False)
      | _ \<Rightarrow> False)"

text \<open>
  Modelled from the spec: \<^verbatim>\<open>lib/primitives\<close> is not among the sources. Its
  prototype-parent lookup "returns the next link in a value's delegation chain, or none
  at the root". A link is followed only to a smaller address: a container is always
  allocated after its prototype, and the link never changes afterwards (a write to
  \<^verbatim>\<open>__proto__\<close> is denied), so the chains of a store that evaluation built are finite.
\<close>

definition getPrototypeOf :: "store \<Rightarrow> val \<Rightarrow> val" where
  "getPrototypeOf s v =
     (case v of
        Ref a \<Rightarrow>
          (case obj_at s a of
             Some ob \<Rightarrow> (case proto ob of Some p \<Rightarrow> if p < a then Ref p else Null | None \<Rightarrow> Null)
           | None \<Rightarrow> Null)
      | _ \<Rightarrow> Null)"

text \<open>
  The primitive check of \<^verbatim>\<open>lib/primitives\<close> is a parameter of the model: the guard
  functions and the evaluator take the record, and the theorems about them hold for
  every check.
\<close>

record primitives =
  isPrimative :: "val \<Rightarrow> bool"

text \<open>
  Modelled from the spec: \<^verbatim>\<open>lib/primitives\<close> is not among the sources. "Primitive
  check: classifies numeric/textual/boolean/null/undefined as non-container". This
  instance, used where a theorem evaluates the model at a concrete input, classifies the
  numeric, textual and boolean values. It leaves \<^verbatim>\<open>null\<close> and \<^verbatim>\<open>undefined\<close> to
  \<^verbatim>\<open>canSetProperty\<close>, whose last branch answers for them and would be dead code
  otherwise: that branch is what permits a write that creates a new entry, when the
  walk along the prototype chain ends at no container.
\<close>

definition valuePrimitives :: primitives where
  "valuePrimitives =
     \<lparr>isPrimative = (\<lambda>v. case v of Bool b \<Rightarrow> True | Num i \<Rightarrow> True | NaN \<Rightarrow> True
                                 | Str str \<Rightarrow> True | _ \<Rightarrow> False)\<rparr>"

definition chainMeasure :: "val \<Rightarrow> nat" where
  "chainMeasure v = (case v of Ref a \<Rightarrow> a + 2 | Null \<Rightarrow> 0 | Undefined \<Rightarrow> 0 | _ \<Rightarrow> 1)"

lemma getPrototypeOf_less:
  "object \<noteq> Null \<Longrightarrow> object \<noteq> Undefined \<Longrightarrow>
     chainMeasure (getPrototypeOf s object) < chainMeasure object"
  by (auto simp: chainMeasure_def getPrototypeOf_def split: val.splits option.splits)

text \<open>\<^verbatim>\<open>objectForKey\<close>: walk a provided object's prototypal hierarchy to the holder of a key.\<close>

function objectForKey :: "store \<Rightarrow> val \<Rightarrow> string \<Rightarrow> val" where
  "objectForKey s object k =
     (let proto = getPrototypeOf s object in
      if \<not> truthy proto \<or> hasOwnProperty s object k then object
      else objectForKey s proto k)"
  by pat_completeness auto
termination
proof (relation "measure (\<lambda>(s, object, k). chainMeasure object)")
  show "wf (measure (\<lambda>(s, object, k). chainMeasure object))"
    by simp
next
  fix s :: store and object :: val and k :: string and x :: val
  assume x: "x = getPrototypeOf s object"
    and go: "\<not> (\<not> truthy x \<or> hasOwnProperty s object k)"
  from go have "truthy x" by simp
  with x have "object \<noteq> Null" "object \<noteq> Undefined"
    by (auto simp: getPrototypeOf_def)
  then have "chainMeasure (getPrototypeOf s object) < chainMeasure object"
    by (rule getPrototypeOf_less)
  with x show "((s, x, k), (s, object, k)) \<in> measure (\<lambda>(s, object, k). chainMeasure object)"
    by simp
qed

declare objectForKey.simps [simp del]

text \<open>
  The key that the host makes of a property name. An object as a name is converted by
  host or guest code: outside the model.
\<close>

definition toKey :: "val \<Rightarrow> string option" where
  "toKey name = toStringJS name"

text \<open>
  \<^verbatim>\<open>canSetProperty\<close>: determine if we have write access to a property. The host's
  \<^verbatim>\<open>hasOwnProperty\<close> is asked about \<^verbatim>\<open>object\<close> only after the first test; where the
  model cannot answer it (the name has no key in the model, or \<^verbatim>\<open>object\<close> is a string
  or an opaque host object, whose entries the store does not hold) the result is \<open>None\<close>.
\<close>

definition holdsEntries :: "val \<Rightarrow> bool" where
  "holdsEntries object =
     (case object of Str str \<Rightarrow> False | ReturnValue t v \<Rightarrow> False | HostError e \<Rightarrow> False
                   | HostGlobal \<Rightarrow> False | _ \<Rightarrow> True)"

function canSetProperty :: "primitives \<Rightarrow> store \<Rightarrow> val \<Rightarrow> val \<Rightarrow> bool option" where
  "canSetProperty P s object property =
     (if property = Str ''__proto__'' \<or> isPrimative P object then Some False
      else if object \<noteq> Null \<and> object \<noteq> Undefined then
        (case (if holdsEntries object then toKey property else None) of
           None \<Rightarrow> None
         | Some k \<Rightarrow>
            if hasOwnProperty s object k then
              (if propertyIsEnumerable s object k then Some True else Some False)
            else canSetProperty P s (getPrototypeOf s object) property)
      else Some True)"
  by pat_completeness auto
termination
  by (relation "measure (\<lambda>(P, s, object, property). chainMeasure object)")
     (auto intro: getPrototypeOf_less)

declare canSetProperty.simps [simp del]

text \<open>
  The host's property read \<^verbatim>\<open>object[name]\<close> on a container: the nearest entry along the
  prototype chain (\<open>lookupEntry\<close>), \<^verbatim>\<open>undefined\<close> when there is none. The built-in
  entries of the host's own prototypes are not part of the store.
\<close>

function lookupEntry :: "store \<Rightarrow> addr \<Rightarrow> string \<Rightarrow> (val \<times> bool) option" where
  "lookupEntry s a k =
     (case own s a k of
        Some entry \<Rightarrow> Some entry
      | None \<Rightarrow>
         (case getPrototypeOf s (Ref a) of Ref p \<Rightarrow> lookupEntry s p k | _ \<Rightarrow> None))"
  by pat_completeness auto
termination
  by (relation "measure (\<lambda>(s, a, k). a)")
     (auto simp: getPrototypeOf_def split: option.splits if_splits)

declare lookupEntry.simps [simp del]

definition getProp :: "store \<Rightarrow> addr \<Rightarrow> string \<Rightarrow> val" where
  "getProp s a k = (case lookupEntry s a k of Some entry \<Rightarrow> fst entry | None \<Rightarrow> Undefined)"

definition getValue :: "val \<Rightarrow> val \<Rightarrow> store \<Rightarrow> val outcome" where
  "getValue object name s =
     (case object of
        Undefined \<Rightarrow> Throw TypeError s
      | Null \<Rightarrow> Throw TypeError s
      | Ref a \<Rightarrow> (case toKey name of None \<Rightarrow> Unmodelled | Some k \<Rightarrow> Ret (getProp s a k) s)
      | _ \<Rightarrow> Unmodelled)"

text \<open>
  The host's property write \<^verbatim>\<open>object[name] = v\<close>, whose value is \<open>v\<close>: an own entry keeps its
  place and its flag, a new one is appended as enumerable. On \<^verbatim>\<open>null\<close> and
  \<^verbatim>\<open>undefined\<close> the host throws; on a number, string or boolean the write is dropped.
  Outside the model: the key \<^verbatim>\<open>__proto__\<close> (a host setter), a new entry of an array
  (the host moves its length), an opaque host object.
\<close>

fun upd :: "string \<Rightarrow> val \<Rightarrow> (string \<times> val \<times> bool) list \<Rightarrow> (string \<times> val \<times> bool) list" where
  "upd k v [] = [(k, v, True)]"
| "upd k v (p # ps) = (if fst p = k then (k, v, snd (snd p)) # ps else p # upd k v ps)"

definition putProp :: "store \<Rightarrow> addr \<Rightarrow> string \<Rightarrow> val \<Rightarrow> store" where
  "putProp s a k v = s[a := (s ! a)\<lparr>props := upd k v (props (s ! a))\<rparr>]"

definition putValue :: "val \<Rightarrow> val \<Rightarrow> val \<Rightarrow> store \<Rightarrow> val outcome" where
  "putValue object name v s =
     (case object of
        Undefined \<Rightarrow> Throw TypeError s
      | Null \<Rightarrow> Throw TypeError s
      | Ref a \<Rightarrow>
         (case toKey name of
            None \<Rightarrow> Unmodelled
          | Some k \<Rightarrow>
             (case obj_at s a of
                None \<Rightarrow> Unmodelled
              | Some ob \<Rightarrow>
                 if k = ''__proto__'' \<or> (kind ob = Array \<and> \<not> hasOwnProperty s object k)
                 then Unmodelled
                 else Ret v (putProp s a k v)))
      | Bool b \<Rightarrow> Ret v s
      | Num i \<Rightarrow> Ret v s
      | NaN \<Rightarrow> Ret v s
      | Str str \<Rightarrow> Ret v s
      | _ \<Rightarrow> Unmodelled)"

text \<open>
  The keys a \<^verbatim>\<open>for (key in value)\<close> of the host visits: the enumerable entries of the
  container, then those of its prototypes that no nearer entry shadows; the indices of a
  string. The keys are taken when the loop starts (the evaluator has no way to delete an
  entry, and the host does not promise a visit to one added meanwhile).
\<close>

function chainKeys :: "store \<Rightarrow> addr \<Rightarrow> string list \<Rightarrow> string list" where
  "chainKeys s a seen =
     (case obj_at s a of
        None \<Rightarrow> []
      | Some ob \<Rightarrow>
         [k. (k, v, e) \<leftarrow> props ob, e, k \<notin> set seen] @
         (case getPrototypeOf s (Ref a) of
            Ref p \<Rightarrow> chainKeys s p (seen @ map fst (props ob))
          | _ \<Rightarrow> []))"
  by pat_completeness auto
termination
  by (relation "measure (\<lambda>(s, a, seen). a)")
     (auto simp: getPrototypeOf_def split: option.splits if_splits)

declare chainKeys.simps [simp del]

definition forInKeys :: "store \<Rightarrow> val \<Rightarrow> string list" where
  "forInKeys s v =
     (case v of
        Ref a \<Rightarrow> chainKeys s a []
      | Str str \<Rightarrow> map (\<lambda>i. intToString (int i)) [0..<length str]
      | _ \<Rightarrow> [])"

section \<open>Helpers of the evaluator\<close>

text \<open>\<^verbatim>\<open>finalValue\<close> unwraps a signal struct; \<^verbatim>\<open>checkValue\<close> ("safely retrieve a value")
  also swaps the host's \<^verbatim>\<open>Function\<close> constructor for the evaluator's own, a value that
  no store of the model holds.\<close>

definition finalValue :: "val \<Rightarrow> val" where
  "finalValue v = (if isReturnValue v then rvValue v else v)"

definition checkValue :: "val \<Rightarrow> val" where
  "checkValue v = finalValue v"

text \<open>
  Modelled from the spec: \<^verbatim>\<open>lib/primitives\<close> is not among the sources. Its
  property-container resolution "may redirect to a ... substitute ... before the
  property is actually indexed". The containers of the store are the evaluator's own,
  so the model hands the object back; reading an entry of a value that is no container
  is outside the model (\<open>getValue\<close>).
\<close>

definition getPropertyObject :: "val \<Rightarrow> val \<Rightarrow> val" where
  "getPropertyObject object prop = object"

text \<open>\<^verbatim>\<open>x.name\<close> of a child node: only an identifier has the field.\<close>

definition getName :: "node \<Rightarrow> val" where
  "getName nd = (case nd of Identifier x \<Rightarrow> Str x | _ \<Rightarrow> Undefined)"

text \<open>\<^verbatim>\<open>unsupportedExpression\<close> throws a host error (its console output is not modelled).\<close>

definition unsupportedExpression :: "store \<Rightarrow> 'a outcome" where
  "unsupportedExpression s = Throw UnsupportedExpression s"

text \<open>
  Modelled from the spec: \<^verbatim>\<open>lib/infinite-checker\<close> is not among the sources. "One
  independent counter per loop-statement activation, constructed against a single
  configured ceiling. Incremented once per iteration; exceeding the ceiling raises a
  ... failure". The counter starts at 0; \<open>check\<close> gives the new counter or the error.
\<close>

definition check :: "nat \<Rightarrow> nat \<Rightarrow> error + nat" where
  "check ceiling count = (if ceiling < Suc count then Inl InfiniteLoop else Inr (Suc count))"

definition maxIterations :: nat where
  "maxIterations = 1000000"

text \<open>\<^verbatim>\<open>getFunction\<close>: the host function it returns is a new container of the store.\<close>

definition getFunction :: "node \<Rightarrow> string list \<Rightarrow> addr \<Rightarrow> store \<Rightarrow> val \<times> store" where
  "getFunction b ps parentContext s =
     (Ref (length s),
      s @ [\<lparr>props = [], proto = None,
             kind = Function \<lparr>fn_params = ps, fn_body = b, fn_scope = parentContext\<rparr>\<rparr>])"

text \<open>
  The value of \<^verbatim>\<open>context['this']\<close>. The module is not in strict mode, so \<^verbatim>\<open>apply\<close>
  turns a \<^verbatim>\<open>null\<close> or \<^verbatim>\<open>undefined\<close> receiver into the host's global object before
  the body of the function tests \<^verbatim>\<open>this == global\<close>, and it hands a number, string or
  boolean receiver to the body as a new wrapper object of the host. Such a wrapper is no
  value of the model: the result is \<open>None\<close>.
\<close>

definition thisBinding :: "val \<Rightarrow> val option" where
  "thisBinding receiver =
     (let this = (if receiver = Null \<or> receiver = Undefined then Some HostGlobal
                  else if isObject receiver then Some receiver
                  else None)
      in map_option (\<lambda>this. if this = HostGlobal then Null else this) this)"

definition argumentsObject :: "val list \<Rightarrow> obj" where
  "argumentsObject args =
     \<lparr>props = map (\<lambda>i. (intToString (int i), args ! i, True)) [0..<length args]
              @ [(''length'', Num (int (length args)), False)],
      proto = None, kind = Array\<rparr>"

text \<open>\<^verbatim>\<open>arguments.forEach(function(arg, idx){ param = params[idx]; if (param) ... })\<close>\<close>

fun bindParams :: "string list \<Rightarrow> val list \<Rightarrow> nat \<Rightarrow> addr \<Rightarrow> store \<Rightarrow> unit outcome" where
  "bindParams ps [] idx context s = Ret () s"
| "bindParams ps (arg # args) idx context s =
     (if idx < length ps \<and> ps ! idx \<noteq> [] then
        andThen (putValue (Ref context) (Str (ps ! idx)) arg s)
          (\<lambda>u s1. bindParams ps args (Suc idx) context s1)
      else bindParams ps args (Suc idx) context s)"

text \<open>The first lines of the function that \<^verbatim>\<open>getFunction\<close> returns, up to the call of
  \<^verbatim>\<open>evaluateAst\<close>: the new frame with \<^verbatim>\<open>this\<close>, \<^verbatim>\<open>arguments\<close> and the parameters.\<close>

definition enterFunction :: "closure \<Rightarrow> val \<Rightarrow> val list \<Rightarrow> store \<Rightarrow> addr outcome" where
  "enterFunction c receiver args s =
     (case thisBinding receiver of
        None \<Rightarrow> Unmodelled
      | Some this \<Rightarrow>
         (let context = length s;
              s1 = s @ [\<lparr>props = [], proto = Some (fn_scope c), kind = Plain\<rparr>];
              s2 = putProp s1 context ''this'' this;
              arguments = length s2;
              s3 = s2 @ [argumentsObject args];
              s4 = putProp s3 context ''arguments'' (Ref arguments)
          in andThen (bindParams (fn_params c) args 0 context s4) (\<lambda>u s5. Ret context s5)))"

definition unaryOperator :: "string \<Rightarrow> val \<Rightarrow> store \<Rightarrow> val outcome" where
  "unaryOperator operator v s =
     (if operator = ''+'' then host (toNumber v) s
      else if operator = ''-'' then host (subtraction (Num 0) v) s
      else if operator = ''~'' then
        host (map_option (\<lambda>n. Num (sint (NOT (word_of_int (toInt32 n) :: 32 word)))) (toNumber v)) s
      else if operator = ''!'' then Ret (Bool (\<not> truthy v)) s
      else if operator = ''typeof'' then Ret (Str (typeOf s v)) s
      else unsupportedExpression s)"

definition binaryOperator :: "string \<Rightarrow> val \<Rightarrow> val \<Rightarrow> store \<Rightarrow> val outcome" where
  "binaryOperator operator l r s =
     (if operator = ''=='' then host (map_option Bool (strictEquals l r)) s
      else if operator = ''==='' then host (map_option Bool (strictEquals l r)) s
      else if operator = ''!='' then host (map_option (\<lambda>b. Bool (\<not> b)) (looseEquals l r)) s
      else if operator = ''!=='' then host (map_option (\<lambda>b. Bool (\<not> b)) (strictEquals l r)) s
      else if operator = ''+'' then host (addition l r) s
      else if operator = ''-'' then host (subtraction l r) s
      else if operator = ''*'' then host (multiplication l r) s
      else if operator = ''/'' then host (division l r) s
      else if operator = ''%'' then host (remainder l r) s
      else if operator = ''<'' then host (relational False False l r) s
      else if operator = ''<='' then host (relational True True l r) s
      else if operator = ''>'' then host (relational True False l r) s
      else if operator = ''>='' then host (relational False True l r) s
      else if operator = ''|'' then host (bitwise (OR) l r) s
      else if operator = ''&'' then host (bitwise (AND) l r) s
      else if operator = ''^'' then host (bitwise (XOR) l r) s
      else if operator = ''instanceof'' then
        (if isFunction s r then Unmodelled else Throw TypeError s)
      else unsupportedExpression s)"

text \<open>The host's \<^verbatim>\<open>try { } catch { } finally { }\<close> around an outcome: the finalizer runs
  after a value and after a throw, and the throw goes on unless the finalizer throws.\<close>

definition tryFinally :: "val outcome \<Rightarrow> (store \<Rightarrow> val outcome) \<Rightarrow> val outcome" where
  "tryFinally r finalizer =
     (case r of
        Ret v s \<Rightarrow> andThen (finalizer s) (\<lambda>u s1. Ret Undefined s1)
      | Throw e s \<Rightarrow> andThen (finalizer s) (\<lambda>u s1. Throw e s1)
      | Timeout \<Rightarrow> Timeout
      | Unmodelled \<Rightarrow> Unmodelled)"

section \<open>The evaluator\<close>

text \<open>
  \<^verbatim>\<open>walk\<close> and the functions it calls, with the loops of the source as recursive
  functions of their own. The first argument is fuel: each call of the model passes on
  one unit less, and the result without fuel is \<open>Timeout\<close>. \<open>P\<close> is the primitive
  check, \<open>mx\<close> the ceiling handed to \<^verbatim>\<open>InfiniteChecker\<close>, \<open>ctx\<close> the address of the
  \<^verbatim>\<open>context\<close> of the enclosing \<^verbatim>\<open>evaluateAst\<close>.

  \<^item> \<open>walkAll\<close> carries the \<^verbatim>\<open>result\<close> variable of the source's loop; \<open>walkEach\<close> is
    \<^verbatim>\<open>nodes.map(walk)\<close>; \<open>declareEach\<close> is the \<^verbatim>\<open>forEach\<close> of a variable declaration.
  \<^item> \<open>forLoop\<close> is the \<^verbatim>\<open>for\<close> statement of the source after its initialiser, with the
    counter of the checker. The case \<^verbatim>\<open>'IfStatement'\<close> of the source has no
    \<^verbatim>\<open>break\<close>: with a falsy test and no alternate, control falls into the case
    \<^verbatim>\<open>'ForStatement'\<close>, where \<^verbatim>\<open>node.init\<close>, \<^verbatim>\<open>node.update\<close> and \<^verbatim>\<open>node.body\<close> of
    the if-node are \<^verbatim>\<open>undefined\<close> and \<^verbatim>\<open>node.test\<close> is its test.
  \<^item> \<open>callFunction\<close> is \<^verbatim>\<open>target.apply(object, args)\<close>: for a function of
    \<^verbatim>\<open>getFunction\<close>, the body of that function. Calling a container that is no
    such function, or one that has an entry \<^verbatim>\<open>apply\<close>, is outside the model.
  \<^item> The node kinds whose evaluation starts in \<^verbatim>\<open>lib/primitives\<close> or in a host
    constructor (array and object literals, \<^verbatim>\<open>new\<close>) end in \<open>Unmodelled\<close>.
\<close>

function (sequential) walk :: "nat \<Rightarrow> primitives \<Rightarrow> nat \<Rightarrow> addr \<Rightarrow> node \<Rightarrow> store \<Rightarrow> val outcome"
  and walkAll :: "nat \<Rightarrow> primitives \<Rightarrow> nat \<Rightarrow> addr \<Rightarrow> node list \<Rightarrow> val \<Rightarrow> store \<Rightarrow> val outcome"
  and walkEach :: "nat \<Rightarrow> primitives \<Rightarrow> nat \<Rightarrow> addr \<Rightarrow> node list \<Rightarrow> store \<Rightarrow> val list outcome"
  and declareEach :: "nat \<Rightarrow> primitives \<Rightarrow> nat \<Rightarrow> addr \<Rightarrow> (string \<times> node option) list \<Rightarrow> store
         \<Rightarrow> val outcome"
  and forLoop :: "nat \<Rightarrow> primitives \<Rightarrow> nat \<Rightarrow> addr \<Rightarrow> node option \<Rightarrow> node option \<Rightarrow> node option
         \<Rightarrow> nat \<Rightarrow> store \<Rightarrow> val outcome"
  and forInLoop :: "nat \<Rightarrow> primitives \<Rightarrow> nat \<Rightarrow> addr \<Rightarrow> node \<Rightarrow> node \<Rightarrow> string list \<Rightarrow> nat
         \<Rightarrow> store \<Rightarrow> val outcome"
  and whileLoop :: "nat \<Rightarrow> primitives \<Rightarrow> nat \<Rightarrow> addr \<Rightarrow> node \<Rightarrow> node \<Rightarrow> nat \<Rightarrow> store \<Rightarrow> val outcome"
  and setValue :: "nat \<Rightarrow> primitives \<Rightarrow> nat \<Rightarrow> addr \<Rightarrow> val \<Rightarrow> node \<Rightarrow> node option
         \<Rightarrow> string option \<Rightarrow> store \<Rightarrow> val outcome"
  and callFunction :: "nat \<Rightarrow> primitives \<Rightarrow> nat \<Rightarrow> val \<Rightarrow> val \<Rightarrow> val list \<Rightarrow> store \<Rightarrow> val outcome"
where
  "walk 0 P mx ctx nd s = Timeout"
| "walk (Suc n) P mx ctx (Program b) s = walkAll n P mx ctx b Null s"
| "walk (Suc n) P mx ctx (BlockStatement b) s = walkAll n P mx ctx b Null s"
| "walk (Suc n) P mx ctx (FunctionDeclaration name ps b) s =
     (case getFunction b ps ctx s of (value, s1) \<Rightarrow> putValue (Ref ctx) (Str name) value s1)"
| "walk (Suc n) P mx ctx (FunctionExpression ps b) s =
     (case getFunction b ps ctx s of (value, s1) \<Rightarrow> Ret value s1)"
| "walk (Suc n) P mx ctx (ReturnStatement argument) s =
     andThen (case argument of None \<Rightarrow> Ret Undefined s | Some a \<Rightarrow> walk n P mx ctx a s)
       (\<lambda>value s1. Ret (ReturnValue ''return'' value) s1)"
| "walk (Suc n) P mx ctx BreakStatement s = Ret (ReturnValue ''break'' Undefined) s"
| "walk (Suc n) P mx ctx ContinueStatement s = Ret (ReturnValue ''continue'' Undefined) s"
| "walk (Suc n) P mx ctx (ExpressionStatement e) s = walk n P mx ctx e s"
| "walk (Suc n) P mx ctx (AssignmentExpression operator left right) s =
     setValue n P mx ctx (Ref ctx) left (Some right) (Some operator) s"
| "walk (Suc n) P mx ctx (UpdateExpression operator argument) s =
     setValue n P mx ctx (Ref ctx) argument None (Some operator) s"
| "walk (Suc n) P mx ctx (VariableDeclaration ds) s = declareEach n P mx ctx ds s"
| "walk (Suc n) P mx ctx (IfStatement test consequent alternate) s =
     andThen (walk n P mx ctx test s)
       (\<lambda>t s1.
          if truthy t then walk n P mx ctx consequent s1
          else case alternate of
                 Some a \<Rightarrow> walk n P mx ctx a s1
               | None \<Rightarrow> forLoop n P mx ctx (Some test) None None 0 s1)"
| "walk (Suc n) P mx ctx (ForStatement init test update b) s =
     andThen (case init of None \<Rightarrow> Ret Undefined s | Some i \<Rightarrow> walk n P mx ctx i s)
       (\<lambda>u s1. forLoop n P mx ctx test update (Some b) 0 s1)"
| "walk (Suc n) P mx ctx (ForInStatement left right b) s =
     andThen (walk n P mx ctx right s)
       (\<lambda>value s1.
          andThen
            (case left of
               VariableDeclaration ds \<Rightarrow>
                 andThen (walk n P mx ctx left s1)
                   (\<lambda>u s2. case ds of
                              [] \<Rightarrow> Throw TypeError s2
                            | d # ds' \<Rightarrow> Ret (Identifier (fst d)) s2)
             | _ \<Rightarrow> Ret left s1)
            (\<lambda>property s2. forInLoop n P mx ctx property b (forInKeys s2 value) 0 s2))"
| "walk (Suc n) P mx ctx (WhileStatement test b) s = whileLoop n P mx ctx test b 0 s"
| "walk (Suc n) P mx ctx (TryStatement block handlers finalizer) s =
     tryFinally
       (case walk n P mx ctx block s of
          Throw e s1 \<Rightarrow>
            (case handlers of
               [] \<Rightarrow> Ret Undefined s1
             | catchClause # hs \<Rightarrow>
                 andThen (putValue (Ref ctx) (Str (fst catchClause)) (HostError e) s1)
                   (\<lambda>u s2. walk n P mx ctx (snd catchClause) s2))
        | r \<Rightarrow> r)
       (\<lambda>s1. case finalizer of None \<Rightarrow> Ret Undefined s1 | Some f \<Rightarrow> walk n P mx ctx f s1)"
| "walk (Suc n) P mx ctx (Literal value) s = Ret value s"
| "walk (Suc n) P mx ctx (UnaryExpression operator argument) s =
     andThen (walk n P mx ctx argument s) (\<lambda>v s1. unaryOperator operator v s1)"
| "walk (Suc n) P mx ctx (ArrayExpression elements) s = Unmodelled"
| "walk (Suc n) P mx ctx (ObjectExpression properties) s = Unmodelled"
| "walk (Suc n) P mx ctx (NewExpression callee arguments) s =
     andThen (walkEach n P mx ctx arguments s)
       (\<lambda>args s1. andThen (walk n P mx ctx callee s1) (\<lambda>target s2. Unmodelled))"
| "walk (Suc n) P mx ctx (BinaryExpression operator left right) s =
     andThen (walk n P mx ctx left s)
       (\<lambda>l s1. andThen (walk n P mx ctx right s1) (\<lambda>r s2. binaryOperator operator l r s2))"
| "walk (Suc n) P mx ctx (LogicalExpression operator left right) s =
     (if operator = ''&&'' then
        andThen (walk n P mx ctx left s)
          (\<lambda>l s1. if truthy l then walk n P mx ctx right s1 else Ret l s1)
      else if operator = ''||'' then
        andThen (walk n P mx ctx left s)
          (\<lambda>l s1. if truthy l then Ret l s1 else walk n P mx ctx right s1)
      else unsupportedExpression s)"
| "walk (Suc n) P mx ctx ThisExpression s = getValue (Ref ctx) (Str ''this'') s"
| "walk (Suc n) P mx ctx (Identifier name) s =
     andThen (getValue (Ref ctx) (Str name) s) (\<lambda>v s1. Ret (finalValue v) s1)"
| "walk (Suc n) P mx ctx (CallExpression callee arguments) s =
     andThen (walkEach n P mx ctx arguments s)
       (\<lambda>args s1.
          andThen (walk n P mx ctx callee s1)
            (\<lambda>target s2.
               andThen
                 (case callee of
                    MemberExpression ob pr computed \<Rightarrow> walk n P mx ctx ob s2
                  | _ \<Rightarrow> Ret Null s2)
                 (\<lambda>object s3. callFunction n P mx target object args s3)))"
| "walk (Suc n) P mx ctx (MemberExpression ob pr computed) s =
     andThen (walk n P mx ctx ob s)
       (\<lambda>object s1.
          andThen (if computed then walk n P mx ctx pr s1 else Ret (getName pr) s1)
            (\<lambda>prop s2.
               andThen (getValue (getPropertyObject object prop) prop s2)
                 (\<lambda>v s3. Ret (checkValue v) s3)))"
| "walk (Suc n) P mx ctx (ConditionalExpression test consequent alternate) s =
     andThen (walk n P mx ctx test s)
       (\<lambda>v s1. if truthy v then walk n P mx ctx consequent s1
                else walk n P mx ctx alternate s1)"
| "walk (Suc n) P mx ctx EmptyStatement s = unsupportedExpression s"
| "walk (Suc n) P mx ctx (Other t) s = unsupportedExpression s"

| "walkAll 0 P mx ctx nodes result s = Timeout"
| "walkAll (Suc n) P mx ctx [] result s = Ret result s"
| "walkAll (Suc n) P mx ctx (childNode # nodes) result s =
     (if childNode = EmptyStatement then walkAll n P mx ctx nodes result s
      else andThen (walk n P mx ctx childNode s)
             (\<lambda>r s1. if isReturnValue r then Ret r s1 else walkAll n P mx ctx nodes r s1))"

| "walkEach 0 P mx ctx nodes s = Timeout"
| "walkEach (Suc n) P mx ctx [] s = Ret [] s"
| "walkEach (Suc n) P mx ctx (arg # nodes) s =
     andThen (walk n P mx ctx arg s)
       (\<lambda>v s1. andThen (walkEach n P mx ctx nodes s1) (\<lambda>vs s2. Ret (v # vs) s2))"

| "declareEach 0 P mx ctx ds s = Timeout"
| "declareEach (Suc n) P mx ctx [] s = Ret Undefined s"
| "declareEach (Suc n) P mx ctx (declaration # ds) s =
     andThen
       (case snd declaration of
          Some init \<Rightarrow> walk n P mx ctx init s
        | None \<Rightarrow> Ret Undefined s)
       (\<lambda>v s1. andThen (putValue (Ref ctx) (Str (fst declaration)) v s1)
                  (\<lambda>u s2. declareEach n P mx ctx ds s2))"

| "forLoop 0 P mx ctx test update b count s = Timeout"
| "forLoop (Suc n) P mx ctx test update b count s =
     andThen (case test of None \<Rightarrow> Ret Undefined s | Some t \<Rightarrow> walk n P mx ctx t s)
       (\<lambda>t s1.
          if truthy t then
            andThen (case b of None \<Rightarrow> Ret Undefined s1 | Some b' \<Rightarrow> walk n P mx ctx b' s1)
              (\<lambda>result s2.
                 if isReturnValue result then
                   (if rvType result = ''continue'' then
                      andThen (case update of None \<Rightarrow> Ret Undefined s2
                               | Some u \<Rightarrow> walk n P mx ctx u s2)
                        (\<lambda>u s3. forLoop n P mx ctx test update b count s3)
                    else if rvType result = ''break'' then Ret Undefined s2
                    else Ret result s2)
                 else
                   (case check mx count of
                      Inl e \<Rightarrow> Throw e s2
                    | Inr count' \<Rightarrow>
                        andThen (case update of None \<Rightarrow> Ret Undefined s2
                                 | Some u \<Rightarrow> walk n P mx ctx u s2)
                          (\<lambda>u s3. forLoop n P mx ctx test update b count' s3)))
          else Ret Undefined s1)"

| "forInLoop 0 P mx ctx property b keys count s = Timeout"
| "forInLoop (Suc n) P mx ctx property b [] count s = Ret Undefined s"
| "forInLoop (Suc n) P mx ctx property b (key # keys) count s =
     andThen (setValue n P mx ctx (Ref ctx) property (Some (Literal (Str key))) None s)
       (\<lambda>u s1.
          andThen (walk n P mx ctx b s1)
            (\<lambda>result s2.
               if isReturnValue result then
                 (if rvType result = ''continue'' then
                    forInLoop n P mx ctx property b keys count s2
                  else if rvType result = ''break'' then Ret Undefined s2
                  else Ret result s2)
               else
                 (case check mx count of
                    Inl e \<Rightarrow> Throw e s2
                  | Inr count' \<Rightarrow> forInLoop n P mx ctx property b keys count' s2)))"

| "whileLoop 0 P mx ctx test b count s = Timeout"
| "whileLoop (Suc n) P mx ctx test b count s =
     andThen (walk n P mx ctx test s)
       (\<lambda>t s1.
          if truthy t then
            andThen (walk n P mx ctx b s1)
              (\<lambda>result s2.
                 case check mx count of
                   Inl e \<Rightarrow> Throw e s2
                 | Inr count' \<Rightarrow> whileLoop n P mx ctx test b count' s2)
          else Ret Undefined s1)"

| "setValue 0 P mx ctx object left right operator s = Timeout"
| "setValue (Suc n) P mx ctx object left right operator s =
     andThen
       (case left of
          Identifier name \<Rightarrow> Ret (objectForKey s object name, Str name) s
        | MemberExpression ob pr computed \<Rightarrow>
            andThen (if computed then walk n P mx ctx pr s else Ret (getName pr) s)
              (\<lambda>name s1. andThen (walk n P mx ctx ob s1) (\<lambda>object' s2. Ret (object', name) s2))
        | _ \<Rightarrow> Ret (object, Null) s)
       (\<lambda>target s1.
          case canSetProperty P s1 (fst target) (snd target) of
            None \<Rightarrow> Unmodelled
          | Some False \<Rightarrow> Ret Undefined s1
          | Some True \<Rightarrow>
              if operator = None \<or> operator = Some ''='' then
                andThen (case right of None \<Rightarrow> Ret Undefined s1 | Some r \<Rightarrow> walk n P mx ctx r s1)
                  (\<lambda>v s2. putValue (fst target) (snd target) v s2)
              else if operator = Some ''+='' then
                andThen (getValue (fst target) (snd target) s1)
                  (\<lambda>old s2.
                     andThen (case right of None \<Rightarrow> Ret Undefined s2
                              | Some r \<Rightarrow> walk n P mx ctx r s2)
                       (\<lambda>v s3. andThen (host (addition old v) s3)
                                  (\<lambda>new s4. putValue (fst target) (snd target) new s4)))
              else if operator = Some ''-='' then
                andThen (getValue (fst target) (snd target) s1)
                  (\<lambda>old s2.
                     andThen (case right of None \<Rightarrow> Ret Undefined s2
                              | Some r \<Rightarrow> walk n P mx ctx r s2)
                       (\<lambda>v s3. andThen (host (subtraction old v) s3)
                                  (\<lambda>new s4. putValue (fst target) (snd target) new s4)))
              else if operator = Some ''++'' then
                andThen (getValue (fst target) (snd target) s1)
                  (\<lambda>old s2.
                     andThen (host (toNumber old) s2)
                       (\<lambda>oldn s3. andThen (host (addition oldn (Num 1)) s3)
                          (\<lambda>new s4. andThen (putValue (fst target) (snd target) new s4)
                                      (\<lambda>u s5. Ret oldn s5))))
              else if operator = Some ''--'' then
                andThen (getValue (fst target) (snd target) s1)
                  (\<lambda>old s2.
                     andThen (host (toNumber old) s2)
                       (\<lambda>oldn s3. andThen (host (subtraction oldn (Num 1)) s3)
                          (\<lambda>new s4. andThen (putValue (fst target) (snd target) new s4)
                                      (\<lambda>u s5. Ret oldn s5))))
              else Ret Undefined s1)"

| "callFunction 0 P mx target object args s = Timeout"
| "callFunction (Suc n) P mx target object args s =
     (case target of
        Ref a \<Rightarrow>
          (case obj_at s a of
             None \<Rightarrow> Unmodelled
           | Some ob \<Rightarrow>
              (case kind ob of
                 Function c \<Rightarrow>
                   if getProp s a ''apply'' \<noteq> Undefined then Unmodelled
                   else
                     andThen (enterFunction c object args s)
                       (\<lambda>context s1.
                          andThen (walk n P mx context (fn_body c) s1)
                            (\<lambda>result s2.
                               Ret (if isReturnValue result then rvValue result else Undefined) s2))
               | _ \<Rightarrow> if getProp s a ''apply'' = Undefined then Throw TypeError s else Unmodelled))
      | ReturnValue t v \<Rightarrow> Unmodelled
      | HostError e \<Rightarrow> Unmodelled
      | HostGlobal \<Rightarrow> Unmodelled
      | _ \<Rightarrow> Throw TypeError s)"
  by pat_completeness auto
termination
  by (relation "measure (case_sum (case_sum (case_sum fst fst) (case_sum fst fst))
        (case_sum (case_sum fst fst) (case_sum fst (case_sum fst fst))))")
     simp_all

text \<open>\<^verbatim>\<open>evaluateAst\<close>: evaluate an AST in the given context. (The \<^verbatim>\<open>Function\<close> factory it
  sets up is reached only through \<^verbatim>\<open>checkValue\<close>.)\<close>

definition evaluateAst :: "nat \<Rightarrow> primitives \<Rightarrow> nat \<Rightarrow> node \<Rightarrow> addr \<Rightarrow> store \<Rightarrow> val outcome" where
  "evaluateAst n P mx tree context s = walk n P mx context tree s"

text \<open>
  \<^verbatim>\<open>safeEval\<close> on a tree that the parser and the hoisting pass (both external) have
  produced: \<^verbatim>\<open>Object.create(parentContext || {})\<close>, then the final value.
\<close>

definition safeEval :: "nat \<Rightarrow> primitives \<Rightarrow> node \<Rightarrow> addr option \<Rightarrow> store \<Rightarrow> val outcome" where
  "safeEval n P tree parentContext s =
     (let s1 = (case parentContext of
                  Some p \<Rightarrow> s
                | None \<Rightarrow> s @ [\<lparr>props = [], proto = None, kind = Plain\<rparr>]);
          parent = (case parentContext of Some p \<Rightarrow> p | None \<Rightarrow> length s);
          context = length s1;
          s2 = s1 @ [\<lparr>props = [], proto = Some parent, kind = Plain\<rparr>]
      in andThen (evaluateAst n P maxIterations tree context s2)
           (\<lambda>v s3. Ret (finalValue v) s3))"

section \<open>Reading an outcome\<close>

text \<open>What an evaluation gave, without the store: the value, or the error thrown; \<open>None\<close>
  when the model has no answer.\<close>

definition result :: "'a outcome \<Rightarrow> (error + 'a) option" where
  "result r =
     (case r of Ret v s \<Rightarrow> Some (Inr v) | Throw e s \<Rightarrow> Some (Inl e) | _ \<Rightarrow> None)"

section \<open>Guest programs used as concrete inputs\<close>

text \<open>
  Trees as the parser and the hoisting pass hand them over (declarations first).
  \<^verbatim>\<open>function f(){ var i; i = 0; while (i < 3) { i += 1; return i } return 99 } f()\<close>
\<close>

definition loopBody :: "node" where
  "loopBody = BlockStatement
     [ExpressionStatement (AssignmentExpression ''+='' (Identifier ''i'') (Literal (Num 1))),
      ReturnStatement (Some (Identifier ''i''))]"

definition whileReturn :: node where
  "whileReturn = Program
     [FunctionDeclaration ''f'' [] (BlockStatement
        [VariableDeclaration [(''i'', None)],
         ExpressionStatement (AssignmentExpression ''='' (Identifier ''i'') (Literal (Num 0))),
         WhileStatement (BinaryExpression ''<'' (Identifier ''i'') (Literal (Num 3))) loopBody,
         ReturnStatement (Some (Literal (Num 99)))]),
      ExpressionStatement (CallExpression (Identifier ''f'') [])]"

text \<open>The same with \<^verbatim>\<open>for (; i < 3; ) { i += 1; return i }\<close> as the loop.\<close>

definition forReturn :: node where
  "forReturn = Program
     [FunctionDeclaration ''f'' [] (BlockStatement
        [VariableDeclaration [(''i'', None)],
         ExpressionStatement (AssignmentExpression ''='' (Identifier ''i'') (Literal (Num 0))),
         ForStatement None (Some (BinaryExpression ''<'' (Identifier ''i'') (Literal (Num 3))))
           None loopBody,
         ReturnStatement (Some (Literal (Num 99)))]),
      ExpressionStatement (CallExpression (Identifier ''f'') [])]"

text \<open>\<^verbatim>\<open>var b; function f(a, b){ return b } b = 5; f(1)\<close>, and the same without the outer
  \<^verbatim>\<open>b\<close>: \<^verbatim>\<open>function f(a, b){ return b } f(1)\<close>.\<close>

definition shadowedParameter :: node where
  "shadowedParameter = Program
     [VariableDeclaration [(''b'', None)],
      FunctionDeclaration ''f'' [''a'', ''b'']
        (BlockStatement [ReturnStatement (Some (Identifier ''b''))]),
      ExpressionStatement (AssignmentExpression ''='' (Identifier ''b'') (Literal (Num 5))),
      ExpressionStatement (CallExpression (Identifier ''f'') [Literal (Num 1)])]"

definition missingParameter :: node where
  "missingParameter = Program
     [FunctionDeclaration ''f'' [''a'', ''b'']
        (BlockStatement [ReturnStatement (Some (Identifier ''b''))]),
      ExpressionStatement (CallExpression (Identifier ''f'') [Literal (Num 1)])]"

text \<open>\<^verbatim>\<open>var c; c = 0; if ((c += 1) == 2) {} c\<close>\<close>

definition countingTest :: node where
  "countingTest = Program
     [VariableDeclaration [(''c'', None)],
      ExpressionStatement (AssignmentExpression ''='' (Identifier ''c'') (Literal (Num 0))),
      IfStatement
        (BinaryExpression ''=='' (AssignmentExpression ''+='' (Identifier ''c'') (Literal (Num 1)))
           (Literal (Num 2)))
        (BlockStatement []) None,
      ExpressionStatement (Identifier ''c'')]"

text \<open>\<^verbatim>\<open>for (; true; ) { continue }\<close>\<close>

definition forContinue :: node where
  "forContinue = ForStatement None (Some (Literal (Bool True))) None
     (BlockStatement [ContinueStatement])"

text \<open>\<^verbatim>\<open>function f(){ var k; for (k in arguments) { continue } return 7 } f(1, 2, 3)\<close>, and
  the same with an empty loop body.\<close>

definition forInOver :: "node \<Rightarrow> node" where
  "forInOver b = Program
     [FunctionDeclaration ''f'' [] (BlockStatement
        [VariableDeclaration [(''k'', None)],
         ForInStatement (Identifier ''k'') (Identifier ''arguments'') b,
         ReturnStatement (Some (Literal (Num 7)))]),
      ExpressionStatement
        (CallExpression (Identifier ''f'') [Literal (Num 1), Literal (Num 2), Literal (Num 3)])]"

text \<open>A root frame and the frame of an evaluation above it.\<close>

definition twoFrames :: store where
  "twoFrames = [\<lparr>props = [], proto = None, kind = Plain\<rparr>,
                \<lparr>props = [], proto = Some 0, kind = Plain\<rparr>]"

text \<open>\<^verbatim>\<open>try { while (true) {} } catch (e) {} e\<close>\<close>

definition guardedSpin :: node where
  "guardedSpin = Program
     [TryStatement (BlockStatement [WhileStatement (Literal (Bool True)) (BlockStatement [])])
        [(''e'', BlockStatement [])] None,
      ExpressionStatement (Identifier ''e'')]"

text \<open>\<^verbatim>\<open>var done; try { while (true) {} } catch (e) {} finally { done = 1 } done\<close>\<close>

definition guardedSpinFinally :: node where
  "guardedSpinFinally = Program
     [VariableDeclaration [(''done'', None)],
      TryStatement (BlockStatement [WhileStatement (Literal (Bool True)) (BlockStatement [])])
        [(''e'', BlockStatement [])]
        (Some (BlockStatement
           [ExpressionStatement
              (AssignmentExpression ''='' (Identifier ''done'') (Literal (Num 1)))])),
      ExpressionStatement (Identifier ''done'')]"

text \<open>A finalizer \<^verbatim>\<open>var done = 1\<close>, and a statement that throws: the parser's
  \<^verbatim>\<open>ThrowStatement\<close> node is not among the cases of \<^verbatim>\<open>walk\<close>.\<close>

definition declareDone :: node where
  "declareDone = VariableDeclaration [(''done'', Some (Literal (Num 1)))]"

definition throwStatement :: node where
  "throwStatement = Other ''ThrowStatement''"

text \<open>The two frames after \<^verbatim>\<open>k = "0"\<close> created \<^verbatim>\<open>k\<close> in the root frame; after the
  error of the loop guard was bound to \<^verbatim>\<open>e\<close>; after the finalizer ran as well; and
  after the finalizer alone.\<close>

definition keyFrames :: store where
  "keyFrames = [\<lparr>props = [(''k'', Str ''0'', True)], proto = None, kind = Plain\<rparr>,
                \<lparr>props = [], proto = Some 0, kind = Plain\<rparr>]"

definition caughtFrames :: store where
  "caughtFrames = [\<lparr>props = [], proto = None, kind = Plain\<rparr>,
     \<lparr>props = [(''e'', HostError InfiniteLoop, True)], proto = Some 0, kind = Plain\<rparr>]"

definition finishedFrames :: store where
  "finishedFrames = [\<lparr>props = [], proto = None, kind = Plain\<rparr>,
     \<lparr>props = [(''e'', HostError InfiniteLoop, True), (''done'', Num 1, True)], proto = Some 0,
       kind = Plain\<rparr>]"

definition finalizedFrames :: store where
  "finalizedFrames = [\<lparr>props = [], proto = None, kind = Plain\<rparr>,
     \<lparr>props = [(''done'', Num 1, True)], proto = Some 0, kind = Plain\<rparr>]"

text \<open>\<^verbatim>\<open>try { switch (1) {} } catch (e) {} e\<close>: the parser's \<^verbatim>\<open>SwitchStatement\<close> node is
  not among the cases of \<^verbatim>\<open>walk\<close>.\<close>

definition guardedSwitch :: node where
  "guardedSwitch = Program
     [TryStatement (BlockStatement [Other ''SwitchStatement''])
        [(''e'', BlockStatement [])] None,
      ExpressionStatement (Identifier ''e'')]"

text \<open>The operators that the switches of \<^verbatim>\<open>walk\<close> know.\<close>

definition unaryOperators :: "string list" where
  "unaryOperators = [''+'', ''-'', ''~'', ''!'', ''typeof'']"

definition binaryOperators :: "string list" where
  "binaryOperators = [''=='', ''==='', ''!='', ''!=='', ''+'', ''-'', ''*'', ''/'', ''%'', ''<'',
     ''<='', ''>'', ''>='', ''|'', ''&'', ''^'', ''instanceof'']"

definition spin :: node where
  "spin = WhileStatement (Literal (Bool True)) (BlockStatement [])"

section \<open>Names for what an assignment targets\<close>

text \<open>The first lines of \<^verbatim>\<open>setValue\<close>, up to the call of \<^verbatim>\<open>canSetProperty\<close>: the object
  and the name that the assignment targets.\<close>

definition assignmentTarget ::
  "nat \<Rightarrow> primitives \<Rightarrow> nat \<Rightarrow> addr \<Rightarrow> val \<Rightarrow> node \<Rightarrow> store \<Rightarrow> (val \<times> val) outcome" where
  "assignmentTarget n P mx ctx object left s =
     (case left of
        Identifier name \<Rightarrow> Ret (objectForKey s object name, Str name) s
      | MemberExpression ob pr computed \<Rightarrow>
          andThen (if computed then walk n P mx ctx pr s else Ret (getName pr) s)
            (\<lambda>name s1. andThen (walk n P mx ctx ob s1) (\<lambda>object' s2. Ret (object', name) s2))
      | _ \<Rightarrow> Ret (object, Null) s)"






text \<open>A parent context of the embedder with a non-enumerable entry \<^verbatim>\<open>x\<close>, alone and
  below the frame of an evaluation.\<close>

definition builtinParent :: store where
  "builtinParent = [\<lparr>props = [(''x'', Num 0, False)], proto = None, kind = Plain\<rparr>]"

definition builtinFrames :: store where
  "builtinFrames = [\<lparr>props = [(''x'', Num 0, False)], proto = None, kind = Plain\<rparr>,
                    \<lparr>props = [], proto = Some 0, kind = Plain\<rparr>]"

text \<open>\<^verbatim>\<open>var x; x = 1; x\<close>\<close>

definition shadowWrite :: node where
  "shadowWrite = Program
     [VariableDeclaration [(''x'', None)],
      ExpressionStatement (AssignmentExpression ''='' (Identifier ''x'') (Literal (Num 1))),
      ExpressionStatement (Identifier ''x'')]"

text \<open>\<^verbatim>\<open>function h(){ return this } h()\<close>, and
  \<^verbatim>\<open>function h(){ return this } h.g = h; h.g()\<close>.\<close>

definition plainCall :: node where
  "plainCall = Program
     [FunctionDeclaration ''h'' [] (BlockStatement [ReturnStatement (Some ThisExpression)]),
      ExpressionStatement (CallExpression (Identifier ''h'') [])]"

definition memberCall :: node where
  "memberCall = Program
     [FunctionDeclaration ''h'' [] (BlockStatement [ReturnStatement (Some ThisExpression)]),
      ExpressionStatement
        (AssignmentExpression ''='' (MemberExpression (Identifier ''h'') (Identifier ''g'') False)
           (Identifier ''h'')),
      ExpressionStatement
        (CallExpression (MemberExpression (Identifier ''h'') (Identifier ''g'') False) [])]"











section \<open>Evaluation of the model at concrete inputs\<close>


lemma tryFinally_weak_cong [cong]: "r = r' \<Longrightarrow> tryFinally r f = tryFinally r' f"
  by simp

lemma fuel_walk: "walk (numeral k) = walk (Suc (pred_numeral k))"
  by (simp add: numeral_eq_Suc)

lemma fuel_walkAll: "walkAll (numeral k) = walkAll (Suc (pred_numeral k))"
  by (simp add: numeral_eq_Suc)

lemma fuel_walkEach: "walkEach (numeral k) = walkEach (Suc (pred_numeral k))"
  by (simp add: numeral_eq_Suc)

lemma fuel_declareEach: "declareEach (numeral k) = declareEach (Suc (pred_numeral k))"
  by (simp add: numeral_eq_Suc)

lemma fuel_forLoop: "forLoop (numeral k) = forLoop (Suc (pred_numeral k))"
  by (simp add: numeral_eq_Suc)

lemma fuel_forInLoop: "forInLoop (numeral k) = forInLoop (Suc (pred_numeral k))"
  by (simp add: numeral_eq_Suc)

lemma fuel_whileLoop: "whileLoop (numeral k) = whileLoop (Suc (pred_numeral k))"
  by (simp add: numeral_eq_Suc)

lemma fuel_setValue: "setValue (numeral k) = setValue (Suc (pred_numeral k))"
  by (simp add: numeral_eq_Suc)

lemma fuel_callFunction: "callFunction (numeral k) = callFunction (Suc (pred_numeral k))"
  by (simp add: numeral_eq_Suc)

lemmas fuel = fuel_walk fuel_walkAll fuel_walkEach fuel_declareEach fuel_forLoop
  fuel_forInLoop fuel_whileLoop fuel_setValue fuel_callFunction

lemmas store_defs = putValue_def getValue_def putProp_def toKey_def obj_at_def own_def
  hasOwnProperty_def propertyIsEnumerable_def getPrototypeOf_def holdsEntries_def
  objectForKey.simps canSetProperty.simps lookupEntry.simps getProp_def chainKeys.simps
  forInKeys_def

lemmas host_defs = unaryOperator_def binaryOperator_def relational_def lessThanJS_def
  arith_def addition_def subtraction_def multiplication_def safe_def looseEquals_def
  looseEqualsNB_def unbool_def stringToNumber_def digitVal_def intToString_def digits.simps
  digitChar_def

lemmas model_defs = safeEval_def evaluateAst_def maxIterations_def valuePrimitives_def
  getFunction_def finalValue_def checkValue_def getPropertyObject_def getName_def
  unsupportedExpression_def check_def thisBinding_def argumentsObject_def enterFunction_def
  tryFinally_def result_def store_defs host_defs fuel Let_def

text \<open>A for-loop whose body ends every iteration with a continue signal never reaches
  the check of its counter: with any fuel, the model runs out of it.\<close>

lemma forLoop_continue:
  "forLoop n P mx ctx (Some (Literal (Bool True))) None
     (Some (BlockStatement [ContinueStatement])) count s = Timeout"
proof (induction n arbitrary: s)
  case 0
  show ?case by simp
next
  case (Suc n)
  show ?case
  proof (cases n)
    case 0
    then show ?thesis by simp
  next
    case n1: (Suc m)
    show ?thesis
    proof (cases m)
      case 0
      with n1 show ?thesis by simp
    next
      case m1: (Suc k)
      show ?thesis
      proof (cases k)
        case 0
        with n1 m1 show ?thesis by simp
      next
        case (Suc j)
        have step: "forLoop (Suc n) P mx ctx (Some (Literal (Bool True))) None
            (Some (BlockStatement [ContinueStatement])) count s =
          forLoop n P mx ctx (Some (Literal (Bool True))) None
            (Some (BlockStatement [ContinueStatement])) count s"
          unfolding n1 m1 Suc
          by (subst forLoop.simps) simp
        show ?thesis
          unfolding step by (rule Suc.IH)
      qed
    qed
  qed
qed

text \<open>\<^verbatim>\<open>while (true) {}\<close> started below the ceiling throws the error of the loop guard,
  given fuel for the iterations that remain; and a try statement with a handler goes on
  from any error its block throws.\<close>

lemma whileLoop_spin:
  "count \<le> mx \<Longrightarrow> mx - count + 3 \<le> n \<Longrightarrow>
     whileLoop n P mx ctx (Literal (Bool True)) (BlockStatement []) count s = Throw InfiniteLoop s"
proof (induction n arbitrary: count)
  case 0
  then show ?case by simp
next
  case (Suc n)
  from Suc.prems obtain m where n: "n = Suc (Suc m)"
    by (metis Suc_le_D add_Suc_right numeral_3_eq_3 add_0_right diff_Suc_1 le_SucE not_less_eq_eq)
  show ?case
  proof (cases "count = mx")
    case True
    then show ?thesis by (simp add: n check_def)
  next
    case False
    with Suc.prems have "Suc count \<le> mx" "mx - Suc count + 3 \<le> n"
      by simp_all
    then have "whileLoop n P mx ctx (Literal (Bool True)) (BlockStatement []) (Suc count) s
        = Throw InfiniteLoop s"
      by (rule Suc.IH)
    moreover have "whileLoop (Suc n) P mx ctx (Literal (Bool True)) (BlockStatement []) count s
        = whileLoop n P mx ctx (Literal (Bool True)) (BlockStatement []) (Suc count) s"
      using \<open>Suc count \<le> mx\<close> unfolding n by (subst whileLoop.simps) (simp add: check_def)
    ultimately show ?thesis by simp
  qed
qed

lemma try_catches:
  "walk n P mx ctx block s = Throw e s1 \<Longrightarrow>
     walk (Suc n) P mx ctx (TryStatement block (catchClause # hs) finalizer) s =
       tryFinally
         (andThen (putValue (Ref ctx) (Str (fst catchClause)) (HostError e) s1)
            (\<lambda>u s2. walk n P mx ctx (snd catchClause) s2))
         (\<lambda>s1. case finalizer of None \<Rightarrow> Ret Undefined s1 | Some f \<Rightarrow> walk n P mx ctx f s1)"
  by simp

section \<open>Assignment: the target and the permission\<close>

text \<open>\<^verbatim>\<open>setValue\<close> is its target followed by the guarded switch; a target that
  \<^verbatim>\<open>canSetProperty\<close> denies ends it at once.\<close>

lemma setValue_target:
  "setValue (Suc n) P mx ctx object left right operator s =
     andThen (assignmentTarget n P mx ctx object left s)
       (\<lambda>target s1.
          case canSetProperty P s1 (fst target) (snd target) of
            None \<Rightarrow> Unmodelled
          | Some False \<Rightarrow> Ret Undefined s1
          | Some True \<Rightarrow>
              if operator = None \<or> operator = Some ''='' then
                andThen (case right of None \<Rightarrow> Ret Undefined s1 | Some r \<Rightarrow> walk n P mx ctx r s1)
                  (\<lambda>v s2. putValue (fst target) (snd target) v s2)
              else if operator = Some ''+='' then
                andThen (getValue (fst target) (snd target) s1)
                  (\<lambda>old s2.
                     andThen (case right of None \<Rightarrow> Ret Undefined s2
                              | Some r \<Rightarrow> walk n P mx ctx r s2)
                       (\<lambda>v s3. andThen (host (addition old v) s3)
                                  (\<lambda>new s4. putValue (fst target) (snd target) new s4)))
              else if operator = Some ''-='' then
                andThen (getValue (fst target) (snd target) s1)
                  (\<lambda>old s2.
                     andThen (case right of None \<Rightarrow> Ret Undefined s2
                              | Some r \<Rightarrow> walk n P mx ctx r s2)
                       (\<lambda>v s3. andThen (host (subtraction old v) s3)
                                  (\<lambda>new s4. putValue (fst target) (snd target) new s4)))
              else if operator = Some ''++'' then
                andThen (getValue (fst target) (snd target) s1)
                  (\<lambda>old s2.
                     andThen (host (toNumber old) s2)
                       (\<lambda>oldn s3. andThen (host (addition oldn (Num 1)) s3)
                          (\<lambda>new s4. andThen (putValue (fst target) (snd target) new s4)
                                      (\<lambda>u s5. Ret oldn s5))))
              else if operator = Some ''--'' then
                andThen (getValue (fst target) (snd target) s1)
                  (\<lambda>old s2.
                     andThen (host (toNumber old) s2)
                       (\<lambda>oldn s3. andThen (host (subtraction oldn (Num 1)) s3)
                          (\<lambda>new s4. andThen (putValue (fst target) (snd target) new s4)
                                      (\<lambda>u s5. Ret oldn s5))))
              else Ret Undefined s1)"
  unfolding assignmentTarget_def by (subst setValue.simps) (rule refl)

lemma setValue_denied:
  assumes "assignmentTarget n P mx ctx object left s = Ret (obj, name) s1"
    and "canSetProperty P s1 obj name = Some False"
  shows "setValue (Suc n) P mx ctx object left right operator s = Ret Undefined s1"
  unfolding setValue_target using assms by simp

lemma canSetProperty_proto: "canSetProperty P s obj (Str ''__proto__'') = Some False"
  by (subst canSetProperty.simps) simp

lemma canSetProperty_primitive: "isPrimative P obj \<Longrightarrow> canSetProperty P s obj name = Some False"
  by (subst canSetProperty.simps) simp

lemma canSetProperty_nonenumerable:
  "lookupEntry s a k = Some (v, False) \<Longrightarrow> toKey name = Some k \<Longrightarrow>
     canSetProperty P s (Ref a) name = Some False"
proof (induction s a k rule: lookupEntry.induct)
  case (1 s a k)
  show ?case
  proof (cases "own s a k")
    case (Some entry)
    with "1.prems" have "entry = (v, False)"
      by (subst (asm) lookupEntry.simps) simp
    with Some "1.prems" show ?thesis
      by (subst canSetProperty.simps)
         (simp add: holdsEntries_def hasOwnProperty_def propertyIsEnumerable_def)
  next
    case None
    with "1.prems" obtain p where p: "getPrototypeOf s (Ref a) = Ref p"
      and found: "lookupEntry s p k = Some (v, False)"
      by (subst (asm) lookupEntry.simps) (auto split: val.splits)
    from "1.IH" [OF None p found "1.prems"(2)]
    have "canSetProperty P s (Ref p) name = Some False" .
    with None p "1.prems" show ?thesis
      by (subst canSetProperty.simps)
         (simp add: holdsEntries_def hasOwnProperty_def)
  qed
qed






section \<open>Entering a function\<close>


lemma map_of_upd_same: "map_of (upd p v ps) p = Some (v, case map_of ps p of Some e \<Rightarrow> snd e | None \<Rightarrow> True)"
  by (induction ps) auto

lemma length_putProp [simp]: "length (putProp s a k v) = length s"
  by (simp add: putProp_def)


lemma own_putProp_same:
  "a < length s \<Longrightarrow> own (putProp s a p v) a p
     = Some (v, case own s a p of Some e \<Rightarrow> snd e | None \<Rightarrow> True)"
  by (simp add: own_def putProp_def obj_at_def map_of_upd_same)







text \<open>A value written under a name is the value read under it.\<close>

lemma putValue_read:
  assumes "putValue (Ref a) (Str x) v s = Ret u s'"
  shows "getValue (Ref a) (Str x) s' = Ret v s'"
proof -
  from assms obtain ob where ob: "obj_at s a = Some ob" and s': "s' = putProp s a x v"
    by (auto simp: putValue_def toKey_def split: option.splits if_splits)
  from ob have "a < length s"
    by (simp add: obj_at_def split: if_splits)
  then have "own s' a x = Some (v, case own s a x of Some e \<Rightarrow> snd e | None \<Rightarrow> True)"
    unfolding s' by (rule own_putProp_same)
  then have "getProp s' a x = v"
    by (simp add: getProp_def lookupEntry.simps)
  then show ?thesis
    by (simp add: getValue_def toKey_def)
qed

section \<open>The claims\<close>

text \<open>
  C1 (the while-loop inspects the control signal of its body: a return inside the body
  ends the loop and returns from the enclosing call). The while-loop of \<^verbatim>\<open>walk\<close> drops
  the value of \<^verbatim>\<open>walk(node.body)\<close>; the for-loop inspects it. On
  \<^verbatim>\<open>function f(){ var i; i = 0; while (i < 3) { i += 1; return i } return 99 } f()\<close> the
  loop runs to its end and the call returns 99; with the for-loop in its place the call
  returns 1.
\<close>

theorem while_ignores_return:
  "result (safeEval 40 valuePrimitives whileReturn None []) = Some (Inr (Num 99))
   \<and> result (safeEval 40 valuePrimitives forReturn None []) = Some (Inr (Num 1))"
  by (simp add: whileReturn_def forReturn_def loopBody_def model_defs del: Suc_numeral)

text \<open>
  C4 (a parameter without an argument is undefined in the body, whatever an outer scope
  binds). The function of \<^verbatim>\<open>getFunction\<close> binds a parameter only where an argument
  exists, so the name of an unsupplied parameter is looked up along the scope chain:
  \<^verbatim>\<open>var b; function f(a, b){ return b } b = 5; f(1)\<close> returns 5. Without an outer \<^verbatim>\<open>b\<close>
  the call returns \<^verbatim>\<open>undefined\<close>.
\<close>

theorem unsupplied_parameter_reads_outer_scope:
  "result (safeEval 20 valuePrimitives shadowedParameter None []) = Some (Inr (Num 5))
   \<and> result (safeEval 20 valuePrimitives missingParameter None []) = Some (Inr Undefined)"
  by (simp add: shadowedParameter_def missingParameter_def model_defs del: Suc_numeral)

text \<open>
  C5 (the test of an if-statement is evaluated once, and nothing else when it is falsy
  and there is no alternate). The case \<^verbatim>\<open>'IfStatement'\<close> falls through into the case
  \<^verbatim>\<open>'ForStatement'\<close>, which evaluates the test again as a loop condition:
  \<^verbatim>\<open>var c; c = 0; if ((c += 1) == 2) {} c\<close> evaluates the test three times and ends
  with \<^verbatim>\<open>c\<close> equal to 3.
\<close>

theorem if_without_alternate_repeats_test:
  "result (safeEval 20 valuePrimitives countingTest None []) = Some (Inr (Num 3))"
  by (simp add: countingTest_def model_defs del: Suc_numeral)

text \<open>
  C6 (the counter of a for-loop and of a for-in loop is incremented once per iteration,
  so a loop whose body runs more often than the ceiling aborts, also when every iteration
  ends with a continue signal). In both loops \<^verbatim>\<open>infinite.check()\<close> stands after the
  \<^verbatim>\<open>continue\<close> of the signal handling, which skips it. \<^verbatim>\<open>for (; true; ) { continue }\<close>
  never aborts: whatever the fuel, the model does not finish. With the ceiling 1, a
  for-in loop over three keys whose body is \<^verbatim>\<open>continue\<close> completes, and the same loop
  with an empty body aborts.
\<close>

theorem continue_skips_loop_guard:
  "walk n P mx ctx forContinue s = Timeout
   \<and> result (evaluateAst 40 valuePrimitives 1 (forInOver (BlockStatement [ContinueStatement]))
         1 twoFrames) = Some (Inr (Num 7))
   \<and> result (evaluateAst 40 valuePrimitives 1 (forInOver (BlockStatement [])) 1 twoFrames)
       = Some (Inl InfiniteLoop)"
proof (intro conjI)
  show "walk n P mx ctx forContinue s = Timeout"
    by (cases n) (simp_all add: forContinue_def forLoop_continue)
  show "result (evaluateAst 40 valuePrimitives 1
          (forInOver (BlockStatement [ContinueStatement])) 1 twoFrames) = Some (Inr (Num 7))"
    by (simp add: forInOver_def twoFrames_def model_defs del: Suc_numeral)
  show "result (evaluateAst 40 valuePrimitives 1 (forInOver (BlockStatement [])) 1 twoFrames)
          = Some (Inl InfiniteLoop)"
    by (simp add: forInOver_def twoFrames_def model_defs del: Suc_numeral)
qed


text \<open>
  C2, as amended (the failure of the loop guard is an ordinary host error, which a guest
  try statement intercepts). When the counter of a loop has reached the ceiling, the
  check of that iteration throws the error: in a while-loop after every body, in a
  for-loop and a for-in loop after a body that gave no control signal. A try statement
  whose block throws it treats it as any other error. With a catch clause, the error is
  bound to the catch parameter, where the handler reads it, and the handler runs; without
  one the error is dropped. Then the finalizer runs, if there is one. The statement
  completes when handler and finalizer complete; it throws what the handler throws, and
  what the finalizer throws in place of that. An error that no try statement intercepts
  ends the statement list that it reaches, whose block or program throws it; and
  \<^verbatim>\<open>safeEval\<close> throws it when the program does, with and without a parent context.
\<close>

theorem loop_guard_failure_is_ordinary_error:
  "(walk n P mx ctx test s = Ret t s1 \<and> truthy t \<and> walk n P mx ctx b s1 = Ret r s2 \<and> mx \<le> count
      \<longrightarrow> whileLoop (Suc n) P mx ctx test b count s = Throw InfiniteLoop s2)
   \<and> (walk n P mx ctx test s = Ret t s1 \<and> truthy t \<and> walk n P mx ctx b s1 = Ret r s2
        \<and> \<not> isReturnValue r \<and> mx \<le> count
      \<longrightarrow> forLoop (Suc n) P mx ctx (Some test) update (Some b) count s = Throw InfiniteLoop s2)
   \<and> (setValue n P mx ctx (Ref ctx) property (Some (Literal (Str key))) None s = Ret u s1
        \<and> walk n P mx ctx b s1 = Ret r s2 \<and> \<not> isReturnValue r \<and> mx \<le> count
      \<longrightarrow> forInLoop (Suc n) P mx ctx property b (key # keys) count s = Throw InfiniteLoop s2)
   \<and> (putValue (Ref ctx) (Str x) (HostError InfiniteLoop) s1 = Ret u s2
      \<longrightarrow> walk (Suc m) P mx ctx (Identifier x) s2 = Ret (HostError InfiniteLoop) s2)
   \<and> (walk n P mx ctx block s = Throw InfiniteLoop s1
        \<and> putValue (Ref ctx) (Str x) (HostError InfiniteLoop) s1 = Ret u s2
        \<and> walk n P mx ctx handler s2 = Ret v s3
        \<and> (case finalizer of None \<Rightarrow> Ret Undefined s3 | Some f \<Rightarrow> walk n P mx ctx f s3)
            = Ret w s4
      \<longrightarrow> walk (Suc n) P mx ctx (TryStatement block ((x, handler) # hs) finalizer) s
            = Ret Undefined s4)
   \<and> (walk n P mx ctx block s = Throw InfiniteLoop s1
        \<and> putValue (Ref ctx) (Str x) (HostError InfiniteLoop) s1 = Ret u s2
        \<and> walk n P mx ctx handler s2 = Throw e s3
        \<and> (case finalizer of None \<Rightarrow> Ret Undefined s3 | Some f \<Rightarrow> walk n P mx ctx f s3)
            = Ret w s4
      \<longrightarrow> walk (Suc n) P mx ctx (TryStatement block ((x, handler) # hs) finalizer) s
            = Throw e s4)
   \<and> (walk n P mx ctx block s = Throw InfiniteLoop s1
        \<and> putValue (Ref ctx) (Str x) (HostError InfiniteLoop) s1 = Ret u s2
        \<and> (walk n P mx ctx handler s2 = Ret v s3 \<or> walk n P mx ctx handler s2 = Throw e s3)
        \<and> (case finalizer of None \<Rightarrow> Ret Undefined s3 | Some f \<Rightarrow> walk n P mx ctx f s3)
            = Throw e' s4
      \<longrightarrow> walk (Suc n) P mx ctx (TryStatement block ((x, handler) # hs) finalizer) s
            = Throw e' s4)
   \<and> (walk n P mx ctx block s = Throw InfiniteLoop s1
        \<and> (case finalizer of None \<Rightarrow> Ret Undefined s1 | Some f \<Rightarrow> walk n P mx ctx f s1)
            = Ret w s2
      \<longrightarrow> walk (Suc n) P mx ctx (TryStatement block [] finalizer) s = Ret Undefined s2)
   \<and> (walk n P mx ctx block s = Throw InfiniteLoop s1
        \<and> (case finalizer of None \<Rightarrow> Ret Undefined s1 | Some f \<Rightarrow> walk n P mx ctx f s1)
            = Throw e' s2
      \<longrightarrow> walk (Suc n) P mx ctx (TryStatement block [] finalizer) s = Throw e' s2)
   \<and> (nd \<noteq> EmptyStatement \<and> walk n P mx ctx nd s = Throw InfiniteLoop s1
      \<longrightarrow> walkAll (Suc n) P mx ctx (nd # nodes) r s = Throw InfiniteLoop s1)
   \<and> (nd \<noteq> EmptyStatement \<and> walk n P mx ctx nd s = Ret v s1 \<and> \<not> isReturnValue v
        \<and> walkAll n P mx ctx nodes v s1 = Throw InfiniteLoop s2
      \<longrightarrow> walkAll (Suc n) P mx ctx (nd # nodes) r s = Throw InfiniteLoop s2)
   \<and> (walkAll n P mx ctx nodes Null s = Throw InfiniteLoop s1
      \<longrightarrow> walk (Suc n) P mx ctx (BlockStatement nodes) s = Throw InfiniteLoop s1
          \<and> walk (Suc n) P mx ctx (Program nodes) s = Throw InfiniteLoop s1)
   \<and> (evaluateAst n P maxIterations tree (Suc (length s0))
          (s0 @ [\<lparr>props = [], proto = None, kind = Plain\<rparr>,
                 \<lparr>props = [], proto = Some (length s0), kind = Plain\<rparr>]) = Throw InfiniteLoop s1
      \<longrightarrow> safeEval n P tree None s0 = Throw InfiniteLoop s1)
   \<and> (evaluateAst n P maxIterations tree (length s0)
          (s0 @ [\<lparr>props = [], proto = Some parent, kind = Plain\<rparr>]) = Throw InfiniteLoop s1
      \<longrightarrow> safeEval n P tree (Some parent) s0 = Throw InfiniteLoop s1)"
proof (intro conjI impI)
  assume "putValue (Ref ctx) (Str x) (HostError InfiniteLoop) s1 = Ret u s2"
  then have "getValue (Ref ctx) (Str x) s2 = Ret (HostError InfiniteLoop) s2"
    by (rule putValue_read)
  then show "walk (Suc m) P mx ctx (Identifier x) s2 = Ret (HostError InfiniteLoop) s2"
    by (simp add: finalValue_def)
next
  assume "walk n P mx ctx block s = Throw InfiniteLoop s1
        \<and> putValue (Ref ctx) (Str x) (HostError InfiniteLoop) s1 = Ret u s2
        \<and> (walk n P mx ctx handler s2 = Ret v s3 \<or> walk n P mx ctx handler s2 = Throw e s3)
        \<and> (case finalizer of None \<Rightarrow> Ret Undefined s3 | Some f \<Rightarrow> walk n P mx ctx f s3)
            = Throw e' s4"
  then show "walk (Suc n) P mx ctx (TryStatement block ((x, handler) # hs) finalizer) s
            = Throw e' s4"
    by (auto simp: tryFinally_def)
qed (simp_all add: check_def tryFinally_def safeEval_def)

text \<open>The amended C2 at concrete inputs, with the ceiling 0: the first iteration of
  \<^verbatim>\<open>while (true) {}\<close>, of \<^verbatim>\<open>for (; true; ) {}\<close> and of a for-in loop over two keys;
  the while-loop in a try statement whose finalizer declares \<^verbatim>\<open>done\<close>, with an empty
  handler, with a handler that throws and with no handler; the same with a finalizer that
  throws; the loop before and after another statement of a list, and in a block and a
  program. With the ceiling of the source, the bare loop through \<^verbatim>\<open>safeEval\<close>.\<close>

theorem loop_guard_failure_is_ordinary_error_witness:
  "whileLoop (Suc 2) valuePrimitives 0 1 (Literal (Bool True)) (BlockStatement []) 0 twoFrames
     = Throw InfiniteLoop twoFrames
   \<and> forLoop (Suc 2) valuePrimitives 0 1 (Some (Literal (Bool True))) None
       (Some (BlockStatement [])) 0 twoFrames = Throw InfiniteLoop twoFrames
   \<and> forInLoop (Suc 2) valuePrimitives 0 1 (Identifier ''k'') (BlockStatement []) [''0'', ''1''] 0
       twoFrames = Throw InfiniteLoop keyFrames
   \<and> walk (Suc 0) valuePrimitives 0 1 (Identifier ''e'') caughtFrames
       = Ret (HostError InfiniteLoop) caughtFrames
   \<and> walk (Suc 4) valuePrimitives 0 1
       (TryStatement spin [(''e'', BlockStatement [])] (Some declareDone)) twoFrames
       = Ret Undefined finishedFrames
   \<and> walk (Suc 4) valuePrimitives 0 1
       (TryStatement spin [(''e'', throwStatement)] (Some declareDone)) twoFrames
       = Throw UnsupportedExpression finishedFrames
   \<and> walk (Suc 4) valuePrimitives 0 1
       (TryStatement spin [(''e'', BlockStatement [])] (Some throwStatement)) twoFrames
       = Throw UnsupportedExpression caughtFrames
   \<and> walk (Suc 4) valuePrimitives 0 1 (TryStatement spin [] (Some declareDone)) twoFrames
       = Ret Undefined finalizedFrames
   \<and> walk (Suc 4) valuePrimitives 0 1 (TryStatement spin [] (Some throwStatement)) twoFrames
       = Throw UnsupportedExpression twoFrames
   \<and> walkAll (Suc 4) valuePrimitives 0 1 [spin, Literal (Num 1)] Null twoFrames
       = Throw InfiniteLoop twoFrames
   \<and> walkAll (Suc 5) valuePrimitives 0 1 [Literal (Num 1), spin] Null twoFrames
       = Throw InfiniteLoop twoFrames
   \<and> walk (Suc 5) valuePrimitives 0 1 (BlockStatement [spin]) twoFrames = Throw InfiniteLoop twoFrames
   \<and> walk (Suc 5) valuePrimitives 0 1 (Program [spin]) twoFrames = Throw InfiniteLoop twoFrames
   \<and> safeEval 1000010 valuePrimitives spin None [] = Throw InfiniteLoop twoFrames
   \<and> safeEval 1000010 valuePrimitives spin (Some 0) [\<lparr>props = [], proto = None, kind = Plain\<rparr>]
       = Throw InfiniteLoop twoFrames"
proof -
  have while_given: "walk 2 valuePrimitives 0 1 (Literal (Bool True)) twoFrames = Ret (Bool True) twoFrames
      \<and> truthy (Bool True)
      \<and> walk 2 valuePrimitives 0 1 (BlockStatement []) twoFrames = Ret Null twoFrames
      \<and> (0::nat) \<le> 0"
    by (simp add: spin_def declareDone_def throwStatement_def twoFrames_def keyFrames_def caughtFrames_def finishedFrames_def finalizedFrames_def unsupportedExpression_def check_def valuePrimitives_def finalValue_def store_defs fuel del: Suc_numeral)
  note while_shown = loop_guard_failure_is_ordinary_error
    [where n = 2 and P = valuePrimitives and mx = 0 and ctx = 1 and test = "Literal (Bool True)" and s = twoFrames and t = "Bool True" and ?s1.0 = twoFrames and b = "BlockStatement []" and r = Null and ?s2.0 = twoFrames and count = 0,
      THEN conjunct1, THEN mp, OF while_given]
  have for_given: "walk 2 valuePrimitives 0 1 (Literal (Bool True)) twoFrames = Ret (Bool True) twoFrames
      \<and> truthy (Bool True)
      \<and> walk 2 valuePrimitives 0 1 (BlockStatement []) twoFrames = Ret Null twoFrames
      \<and> \<not> isReturnValue Null \<and> (0::nat) \<le> 0"
    by (simp add: spin_def declareDone_def throwStatement_def twoFrames_def keyFrames_def caughtFrames_def finishedFrames_def finalizedFrames_def unsupportedExpression_def check_def valuePrimitives_def finalValue_def store_defs fuel del: Suc_numeral)
  note for_shown = loop_guard_failure_is_ordinary_error
    [where n = 2 and P = valuePrimitives and mx = 0 and ctx = 1 and test = "Literal (Bool True)" and s = twoFrames and t = "Bool True" and ?s1.0 = twoFrames and b = "BlockStatement []" and r = Null and ?s2.0 = twoFrames and count = 0 and update = None,
      THEN conjunct2, THEN conjunct1, THEN mp, OF for_given]
  have forIn_given: "setValue 2 valuePrimitives 0 1 (Ref 1) (Identifier ''k'') (Some (Literal (Str ''0''))) None
        twoFrames = Ret (Str ''0'') keyFrames
      \<and> walk 2 valuePrimitives 0 1 (BlockStatement []) keyFrames = Ret Null keyFrames
      \<and> \<not> isReturnValue Null \<and> (0::nat) \<le> 0"
    by (simp add: spin_def declareDone_def throwStatement_def twoFrames_def keyFrames_def caughtFrames_def finishedFrames_def finalizedFrames_def unsupportedExpression_def check_def valuePrimitives_def finalValue_def store_defs fuel del: Suc_numeral)
  note forIn_shown = loop_guard_failure_is_ordinary_error
    [where n = 2 and P = valuePrimitives and mx = 0 and ctx = 1 and property = "Identifier ''k''" and key = "''0''" and s = twoFrames and u = "Str ''0''" and ?s1.0 = keyFrames and b = "BlockStatement []" and r = Null and ?s2.0 = keyFrames and count = 0 and keys = "[''1'']",
      THEN conjunct2, THEN conjunct2, THEN conjunct1, THEN mp, OF forIn_given]
  have bound_given: "putValue (Ref 1) (Str ''e'') (HostError InfiniteLoop) twoFrames
          = Ret (HostError InfiniteLoop) caughtFrames"
    by (simp add: spin_def declareDone_def throwStatement_def twoFrames_def keyFrames_def caughtFrames_def finishedFrames_def finalizedFrames_def unsupportedExpression_def check_def valuePrimitives_def finalValue_def store_defs fuel del: Suc_numeral)
  note bound_shown = loop_guard_failure_is_ordinary_error
    [where P = valuePrimitives and mx = 0 and ctx = 1 and x = "''e''" and ?s1.0 = twoFrames and u = "HostError InfiniteLoop" and ?s2.0 = caughtFrames and m = 0,
      THEN conjunct2, THEN conjunct2, THEN conjunct2, THEN conjunct1, THEN mp, OF bound_given]
  have caught_given: "walk 4 valuePrimitives 0 1 spin twoFrames = Throw InfiniteLoop twoFrames
      \<and> putValue (Ref 1) (Str ''e'') (HostError InfiniteLoop) twoFrames
          = Ret (HostError InfiniteLoop) caughtFrames
      \<and> walk 4 valuePrimitives 0 1 (BlockStatement []) caughtFrames = Ret Null caughtFrames
      \<and> (case Some declareDone of None \<Rightarrow> Ret Undefined caughtFrames
          | Some f \<Rightarrow> walk 4 valuePrimitives 0 1 f caughtFrames) = Ret Undefined finishedFrames"
    by (simp add: spin_def declareDone_def throwStatement_def twoFrames_def keyFrames_def caughtFrames_def finishedFrames_def finalizedFrames_def unsupportedExpression_def check_def valuePrimitives_def finalValue_def store_defs fuel del: Suc_numeral)
  note caught_shown = loop_guard_failure_is_ordinary_error
    [where n = 4 and P = valuePrimitives and mx = 0 and ctx = 1 and block = spin and s = twoFrames and ?s1.0 = twoFrames and x = "''e''" and u = "HostError InfiniteLoop" and ?s2.0 = caughtFrames and handler = "BlockStatement []" and v = Null and ?s3.0 = caughtFrames and finalizer = "Some declareDone" and w = Undefined and ?s4.0 = finishedFrames and hs = "[]",
      THEN conjunct2, THEN conjunct2, THEN conjunct2, THEN conjunct2, THEN conjunct1, THEN mp, OF caught_given]
  have rethrown_given: "walk 4 valuePrimitives 0 1 spin twoFrames = Throw InfiniteLoop twoFrames
      \<and> putValue (Ref 1) (Str ''e'') (HostError InfiniteLoop) twoFrames
          = Ret (HostError InfiniteLoop) caughtFrames
      \<and> walk 4 valuePrimitives 0 1 throwStatement caughtFrames
          = Throw UnsupportedExpression caughtFrames
      \<and> (case Some declareDone of None \<Rightarrow> Ret Undefined caughtFrames
          | Some f \<Rightarrow> walk 4 valuePrimitives 0 1 f caughtFrames) = Ret Undefined finishedFrames"
    by (simp add: spin_def declareDone_def throwStatement_def twoFrames_def keyFrames_def caughtFrames_def finishedFrames_def finalizedFrames_def unsupportedExpression_def check_def valuePrimitives_def finalValue_def store_defs fuel del: Suc_numeral)
  note rethrown_shown = loop_guard_failure_is_ordinary_error
    [where n = 4 and P = valuePrimitives and mx = 0 and ctx = 1 and block = spin and s = twoFrames and ?s1.0 = twoFrames and x = "''e''" and u = "HostError InfiniteLoop" and ?s2.0 = caughtFrames and handler = throwStatement and e = UnsupportedExpression and ?s3.0 = caughtFrames and finalizer = "Some declareDone" and w = Undefined and ?s4.0 = finishedFrames and hs = "[]",
      THEN conjunct2, THEN conjunct2, THEN conjunct2, THEN conjunct2, THEN conjunct2, THEN conjunct1, THEN mp, OF rethrown_given]
  have finalizerThrows_given: "walk 4 valuePrimitives 0 1 spin twoFrames = Throw InfiniteLoop twoFrames
      \<and> putValue (Ref 1) (Str ''e'') (HostError InfiniteLoop) twoFrames
          = Ret (HostError InfiniteLoop) caughtFrames
      \<and> (walk 4 valuePrimitives 0 1 (BlockStatement []) caughtFrames = Ret Null caughtFrames
          \<or> walk 4 valuePrimitives 0 1 (BlockStatement []) caughtFrames
              = Throw TypeError caughtFrames)
      \<and> (case Some throwStatement of None \<Rightarrow> Ret Undefined caughtFrames
          | Some f \<Rightarrow> walk 4 valuePrimitives 0 1 f caughtFrames)
          = Throw UnsupportedExpression caughtFrames"
    by (simp add: spin_def declareDone_def throwStatement_def twoFrames_def keyFrames_def caughtFrames_def finishedFrames_def finalizedFrames_def unsupportedExpression_def check_def valuePrimitives_def finalValue_def store_defs fuel del: Suc_numeral)
  note finalizerThrows_shown = loop_guard_failure_is_ordinary_error
    [where n = 4 and P = valuePrimitives and mx = 0 and ctx = 1 and block = spin and s = twoFrames and ?s1.0 = twoFrames and x = "''e''" and u = "HostError InfiniteLoop" and ?s2.0 = caughtFrames and handler = "BlockStatement []" and v = Null and e = TypeError and ?s3.0 = caughtFrames and finalizer = "Some throwStatement" and e' = UnsupportedExpression and ?s4.0 = caughtFrames and hs = "[]",
      THEN conjunct2, THEN conjunct2, THEN conjunct2, THEN conjunct2, THEN conjunct2, THEN conjunct2, THEN conjunct1, THEN mp, OF finalizerThrows_given]
  have dropped_given: "walk 4 valuePrimitives 0 1 spin twoFrames = Throw InfiniteLoop twoFrames
      \<and> (case Some declareDone of None \<Rightarrow> Ret Undefined twoFrames
          | Some f \<Rightarrow> walk 4 valuePrimitives 0 1 f twoFrames) = Ret Undefined finalizedFrames"
    by (simp add: spin_def declareDone_def throwStatement_def twoFrames_def keyFrames_def caughtFrames_def finishedFrames_def finalizedFrames_def unsupportedExpression_def check_def valuePrimitives_def finalValue_def store_defs fuel del: Suc_numeral)
  note dropped_shown = loop_guard_failure_is_ordinary_error
    [where n = 4 and P = valuePrimitives and mx = 0 and ctx = 1 and block = spin and s = twoFrames and ?s1.0 = twoFrames and finalizer = "Some declareDone" and w = Undefined and ?s2.0 = finalizedFrames,
      THEN conjunct2, THEN conjunct2, THEN conjunct2, THEN conjunct2, THEN conjunct2, THEN conjunct2, THEN conjunct2, THEN conjunct1, THEN mp, OF dropped_given]
  have droppedThrows_given: "walk 4 valuePrimitives 0 1 spin twoFrames = Throw InfiniteLoop twoFrames
      \<and> (case Some throwStatement of None \<Rightarrow> Ret Undefined twoFrames
          | Some f \<Rightarrow> walk 4 valuePrimitives 0 1 f twoFrames)
          = Throw UnsupportedExpression twoFrames"
    by (simp add: spin_def declareDone_def throwStatement_def twoFrames_def keyFrames_def caughtFrames_def finishedFrames_def finalizedFrames_def unsupportedExpression_def check_def valuePrimitives_def finalValue_def store_defs fuel del: Suc_numeral)
  note droppedThrows_shown = loop_guard_failure_is_ordinary_error
    [where n = 4 and P = valuePrimitives and mx = 0 and ctx = 1 and block = spin and s = twoFrames and ?s1.0 = twoFrames and finalizer = "Some throwStatement" and e' = UnsupportedExpression and ?s2.0 = twoFrames,
      THEN conjunct2, THEN conjunct2, THEN conjunct2, THEN conjunct2, THEN conjunct2, THEN conjunct2, THEN conjunct2, THEN conjunct2, THEN conjunct1, THEN mp, OF droppedThrows_given]
  have first_given: "spin \<noteq> EmptyStatement \<and> walk 4 valuePrimitives 0 1 spin twoFrames = Throw InfiniteLoop twoFrames"
    by (simp add: spin_def declareDone_def throwStatement_def twoFrames_def keyFrames_def caughtFrames_def finishedFrames_def finalizedFrames_def unsupportedExpression_def check_def valuePrimitives_def finalValue_def store_defs fuel del: Suc_numeral)
  note first_shown = loop_guard_failure_is_ordinary_error
    [where n = 4 and P = valuePrimitives and mx = 0 and ctx = 1 and nd = spin and s = twoFrames and ?s1.0 = twoFrames and nodes = "[Literal (Num 1)]" and r = Null,
      THEN conjunct2, THEN conjunct2, THEN conjunct2, THEN conjunct2, THEN conjunct2, THEN conjunct2, THEN conjunct2, THEN conjunct2, THEN conjunct2, THEN conjunct1, THEN mp, OF first_given]
  have later_given: "Literal (Num 1) \<noteq> EmptyStatement
      \<and> walk 5 valuePrimitives 0 1 (Literal (Num 1)) twoFrames = Ret (Num 1) twoFrames
      \<and> \<not> isReturnValue (Num 1)
      \<and> walkAll 5 valuePrimitives 0 1 [spin] (Num 1) twoFrames = Throw InfiniteLoop twoFrames"
    by (simp add: spin_def declareDone_def throwStatement_def twoFrames_def keyFrames_def caughtFrames_def finishedFrames_def finalizedFrames_def unsupportedExpression_def check_def valuePrimitives_def finalValue_def store_defs fuel del: Suc_numeral)
  note later_shown = loop_guard_failure_is_ordinary_error
    [where n = 5 and P = valuePrimitives and mx = 0 and ctx = 1 and nd = "Literal (Num 1)" and s = twoFrames and v = "Num 1" and ?s1.0 = twoFrames and nodes = "[spin]" and ?s2.0 = twoFrames and r = Null,
      THEN conjunct2, THEN conjunct2, THEN conjunct2, THEN conjunct2, THEN conjunct2, THEN conjunct2, THEN conjunct2, THEN conjunct2, THEN conjunct2, THEN conjunct2, THEN conjunct1, THEN mp, OF later_given]
  have enclosing_given: "walkAll 5 valuePrimitives 0 1 [spin] Null twoFrames = Throw InfiniteLoop twoFrames"
    by (simp add: spin_def declareDone_def throwStatement_def twoFrames_def keyFrames_def caughtFrames_def finishedFrames_def finalizedFrames_def unsupportedExpression_def check_def valuePrimitives_def finalValue_def store_defs fuel del: Suc_numeral)
  note enclosing_shown = loop_guard_failure_is_ordinary_error
    [where n = 5 and P = valuePrimitives and mx = 0 and ctx = 1 and nodes = "[spin]" and s = twoFrames and ?s1.0 = twoFrames,
      THEN conjunct2, THEN conjunct2, THEN conjunct2, THEN conjunct2, THEN conjunct2, THEN conjunct2, THEN conjunct2, THEN conjunct2, THEN conjunct2, THEN conjunct2, THEN conjunct2, THEN conjunct1, THEN mp, OF enclosing_given]
  have top_given: "evaluateAst 1000010 valuePrimitives maxIterations spin (Suc (length []))
      ([] @ [\<lparr>props = [], proto = None, kind = Plain\<rparr>,
             \<lparr>props = [], proto = Some (length []), kind = Plain\<rparr>]) = Throw InfiniteLoop twoFrames"
    by (simp add: evaluateAst_def spin_def twoFrames_def maxIterations_def fuel_walk
          whileLoop_spin del: Suc_numeral)
  note top_shown = loop_guard_failure_is_ordinary_error
    [where n = 1000010 and P = valuePrimitives and tree = spin and ?s0.0 = "[]" and ?s1.0 = twoFrames,
      THEN conjunct2, THEN conjunct2, THEN conjunct2, THEN conjunct2, THEN conjunct2, THEN conjunct2, THEN conjunct2, THEN conjunct2, THEN conjunct2, THEN conjunct2, THEN conjunct2, THEN conjunct2, THEN conjunct1, THEN mp, OF top_given]
  have child_given: "evaluateAst 1000010 valuePrimitives maxIterations spin
      (length [\<lparr>props = [], proto = None, kind = Plain\<rparr>])
      ([\<lparr>props = [], proto = None, kind = Plain\<rparr>]
         @ [\<lparr>props = [], proto = Some 0, kind = Plain\<rparr>]) = Throw InfiniteLoop twoFrames"
    by (simp add: evaluateAst_def spin_def twoFrames_def maxIterations_def fuel_walk
          whileLoop_spin del: Suc_numeral)
  note child_shown = loop_guard_failure_is_ordinary_error
    [where n = 1000010 and P = valuePrimitives and tree = spin and ?s0.0 = "[\<lparr>props = [], proto = None, kind = Plain\<rparr>]" and parent = 0 and ?s1.0 = twoFrames,
      THEN conjunct2, THEN conjunct2, THEN conjunct2, THEN conjunct2, THEN conjunct2, THEN conjunct2, THEN conjunct2, THEN conjunct2, THEN conjunct2, THEN conjunct2, THEN conjunct2, THEN conjunct2, THEN conjunct2, THEN mp, OF child_given]
  show ?thesis
    by (intro conjI)
       (rule while_shown, rule for_shown, rule forIn_shown, rule bound_shown, rule caught_shown, rule rethrown_shown, rule finalizerThrows_shown, rule dropped_shown, rule droppedThrows_shown, rule first_shown, rule later_shown, rule enclosing_shown [THEN conjunct1], rule enclosing_shown [THEN conjunct2], rule top_shown, rule child_shown)
qed

text \<open>
  C2 as stated fails: with the ceiling of the source, 1000000,
  \<^verbatim>\<open>try { while (true) {} } catch (e) {} e\<close> completes, and its value is the error of the
  loop guard, which the handler received; and after
  \<^verbatim>\<open>try { while (true) {} } catch (e) {} finally { done = 1 }\<close> the evaluation goes on
  and reads the 1 that the finalizer wrote.
\<close>

theorem guest_catches_loop_guard_failure:
  "result (safeEval 1000010 valuePrimitives guardedSpin None []) = Some (Inr (HostError InfiniteLoop))
   \<and> result (safeEval 1000010 valuePrimitives guardedSpinFinally None []) = Some (Inr (Num 1))"
  by (simp add: guardedSpin_def guardedSpinFinally_def model_defs whileLoop_spin
        del: Suc_numeral fuel_whileLoop)

text \<open>
  C8, as amended (an unsupported construct throws an ordinary host error). A node of a
  kind outside the cases of \<^verbatim>\<open>walk\<close> throws at once; a unary or binary expression with
  an operator outside the switch throws after its operands were evaluated; a logical
  expression with another operator throws at once. A try statement around it catches the
  error as it catches any other.
\<close>

theorem unsupported_construct_is_ordinary_error:
  "walk (Suc n) P mx ctx (Other t) s = Throw UnsupportedExpression s
   \<and> walk (Suc n) P mx ctx EmptyStatement s = Throw UnsupportedExpression s
   \<and> (operator \<notin> set unaryOperators \<and> walk n P mx ctx argument s = Ret v s1
      \<longrightarrow> walk (Suc n) P mx ctx (UnaryExpression operator argument) s
            = Throw UnsupportedExpression s1)
   \<and> (operator \<notin> set binaryOperators \<and> walk n P mx ctx left s = Ret l s1
        \<and> walk n P mx ctx right s1 = Ret r s2
      \<longrightarrow> walk (Suc n) P mx ctx (BinaryExpression operator left right) s
            = Throw UnsupportedExpression s2)
   \<and> (operator \<noteq> ''&&'' \<and> operator \<noteq> ''||''
      \<longrightarrow> walk (Suc n) P mx ctx (LogicalExpression operator left right) s
            = Throw UnsupportedExpression s)
   \<and> (walk n P mx ctx block s = Throw UnsupportedExpression s1
      \<longrightarrow> walk (Suc n) P mx ctx (TryStatement block (catchClause # hs) finalizer) s =
           tryFinally
             (andThen (putValue (Ref ctx) (Str (fst catchClause)) (HostError UnsupportedExpression) s1)
                (\<lambda>u s2. walk n P mx ctx (snd catchClause) s2))
             (\<lambda>s1. case finalizer of None \<Rightarrow> Ret Undefined s1
                    | Some f \<Rightarrow> walk n P mx ctx f s1))
   \<and> (walk n P mx ctx block s = Throw UnsupportedExpression s1
      \<longrightarrow> walk (Suc n) P mx ctx (TryStatement block [] finalizer) s =
           tryFinally (Ret Undefined s1)
             (\<lambda>s1. case finalizer of None \<Rightarrow> Ret Undefined s1
                    | Some f \<Rightarrow> walk n P mx ctx f s1))"
  by (simp add: unsupportedExpression_def unaryOperator_def binaryOperator_def
        unaryOperators_def binaryOperators_def try_catches)

text \<open>The amended C8 at concrete inputs: the operators \<^verbatim>\<open>delete\<close>, \<^verbatim>\<open>**\<close> and \<^verbatim>\<open>??\<close>, and
  \<^verbatim>\<open>try { switch (1) {} } catch (e) {}\<close>.\<close>

theorem unsupported_construct_is_ordinary_error_witness:
  "walk (Suc 1) valuePrimitives 0 1 (UnaryExpression ''delete'' (Literal (Num 1))) twoFrames
     = Throw UnsupportedExpression twoFrames
   \<and> walk (Suc 1) valuePrimitives 0 1 (BinaryExpression ''**'' (Literal (Num 1)) (Literal (Num 2)))
       twoFrames = Throw UnsupportedExpression twoFrames
   \<and> walk (Suc 1) valuePrimitives 0 1 (LogicalExpression ''??'' (Literal (Num 1)) (Literal (Num 2)))
       twoFrames = Throw UnsupportedExpression twoFrames
   \<and> walk (Suc 2) valuePrimitives 0 1
         (TryStatement (Other ''SwitchStatement'') [(''e'', BlockStatement [])] None) twoFrames
     = Ret Undefined
         [\<lparr>props = [], proto = None, kind = Plain\<rparr>,
          \<lparr>props = [(''e'', HostError UnsupportedExpression, True)], proto = Some 0,
            kind = Plain\<rparr>]
   \<and> walk (Suc 2) valuePrimitives 0 1 (TryStatement (Other ''SwitchStatement'') [] None) twoFrames
     = Ret Undefined twoFrames"
proof -
  have one: "walk 1 valuePrimitives 0 1 (Literal (Num 1)) twoFrames = Ret (Num 1) twoFrames"
    by simp
  have two: "walk 1 valuePrimitives 0 1 (Literal (Num 2)) twoFrames = Ret (Num 2) twoFrames"
    by simp
  have thrown: "walk 2 valuePrimitives 0 1 (Other ''SwitchStatement'') twoFrames
      = Throw UnsupportedExpression twoFrames"
    by (simp add: fuel unsupportedExpression_def del: Suc_numeral)
  note inst = unsupported_construct_is_ordinary_error
    [where n = 1 and P = valuePrimitives and mx = 0 and ctx = 1 and s = twoFrames
      and ?s1.0 = twoFrames and ?s2.0 = twoFrames and argument = "Literal (Num 1)"
      and left = "Literal (Num 1)" and right = "Literal (Num 2)" and v = "Num 1"
      and l = "Num 1" and r = "Num 2"]
  have unary: "walk (Suc 1) valuePrimitives 0 1 (UnaryExpression ''delete'' (Literal (Num 1)))
      twoFrames = Throw UnsupportedExpression twoFrames"
    using inst [where operator = "''delete''"] one
    by (simp add: unaryOperators_def)
  have binary: "walk (Suc 1) valuePrimitives 0 1
      (BinaryExpression ''**'' (Literal (Num 1)) (Literal (Num 2))) twoFrames
        = Throw UnsupportedExpression twoFrames"
    using inst [where operator = "''**''"] one two
    by (simp add: binaryOperators_def)
  have logical: "walk (Suc 1) valuePrimitives 0 1
      (LogicalExpression ''??'' (Literal (Num 1)) (Literal (Num 2))) twoFrames
        = Throw UnsupportedExpression twoFrames"
    using inst [where operator = "''??''"]
    by simp
  note caught = unsupported_construct_is_ordinary_error
    [where n = 2 and P = valuePrimitives and mx = 0 and ctx = 1
      and block = "Other ''SwitchStatement''" and s = twoFrames and ?s1.0 = twoFrames
      and catchClause = "(''e'', BlockStatement [])" and hs = "[]" and finalizer = None,
      THEN conjunct2, THEN conjunct2, THEN conjunct2, THEN conjunct2, THEN conjunct2,
      THEN conjunct1, THEN mp, OF thrown]
  note dropped = unsupported_construct_is_ordinary_error
    [where n = 2 and P = valuePrimitives and mx = 0 and ctx = 1
      and block = "Other ''SwitchStatement''" and s = twoFrames and ?s1.0 = twoFrames
      and finalizer = None,
      THEN conjunct2, THEN conjunct2, THEN conjunct2, THEN conjunct2, THEN conjunct2,
      THEN conjunct2, THEN mp, OF thrown]
  show ?thesis
    unfolding caught dropped using unary binary logical
    by (simp add: twoFrames_def tryFinally_def store_defs fuel del: Suc_numeral)
qed

text \<open>
  C8 as stated fails: \<^verbatim>\<open>try { switch (1) {} } catch (e) {} e\<close> completes, and its value is
  the unsupported-construct error, which the handler received.
\<close>

theorem guest_catches_unsupported_construct:
  "result (safeEval 10 valuePrimitives guardedSwitch None []) = Some (Inr (HostError UnsupportedExpression))"
  by (simp add: guardedSwitch_def model_defs del: Suc_numeral)




text \<open>
  C7, as amended (a denied write is a silent no-op). A write is denied when its name is
  \<^verbatim>\<open>__proto__\<close>, when the primitive check classifies its object, or when the entry of
  that name that a read of the object finds (its own, else the nearest inherited one) is
  non-enumerable. \<^verbatim>\<open>setValue\<close> then gives \<^verbatim>\<open>undefined\<close> and the store in which it found
  its target: no error is thrown, the right-hand side is not evaluated, and no entry
  changes; for a simple identifier that store is the one \<^verbatim>\<open>setValue\<close> started from.
\<close>

theorem denied_write_is_silent_noop:
  assumes "assignmentTarget n P mx ctx object left s = Ret (obj, name) s1"
    and "name = Str ''__proto__'' \<or> isPrimative P obj
         \<or> (\<exists>a k v. obj = Ref a \<and> toKey name = Some k \<and> lookupEntry s1 a k = Some (v, False))"
  shows "setValue (Suc n) P mx ctx object left right operator s = Ret Undefined s1
         \<and> (\<forall>x. left = Identifier x \<longrightarrow> s1 = s)"
proof
  from assms(2) have "canSetProperty P s1 obj name = Some False"
    by (auto intro: canSetProperty_proto canSetProperty_primitive canSetProperty_nonenumerable)
  with assms(1) show "setValue (Suc n) P mx ctx object left right operator s = Ret Undefined s1"
    by (rule setValue_denied)
  from assms(1) show "\<forall>x. left = Identifier x \<longrightarrow> s1 = s"
    by (auto simp: assignmentTarget_def)
qed

text \<open>The amended C7 at concrete inputs, one for each way of being denied: \<^verbatim>\<open>x = 1\<close>
  with a non-enumerable \<^verbatim>\<open>x\<close> in the parent frame, \<^verbatim>\<open>(5).p = 1\<close>, and
  \<^verbatim>\<open>__proto__ += 1\<close>.\<close>

theorem denied_write_is_silent_noop_witness:
  "setValue (Suc 1) valuePrimitives 9 1 (Ref 1) (Identifier ''x'') (Some (Literal (Num 1)))
     (Some ''='') builtinFrames = Ret Undefined builtinFrames
   \<and> setValue (Suc 1) valuePrimitives 9 1 (Ref 1)
       (MemberExpression (Literal (Num 5)) (Identifier ''p'') False) (Some (Literal (Num 1)))
       (Some ''='') builtinFrames = Ret Undefined builtinFrames
   \<and> setValue (Suc 1) valuePrimitives 9 1 (Ref 1) (Identifier ''__proto__'')
       (Some (Literal (Num 1))) (Some ''+='') builtinFrames = Ret Undefined builtinFrames"
proof (intro conjI)
  have target: "assignmentTarget 1 valuePrimitives 9 1 (Ref 1) (Identifier ''x'') builtinFrames
      = Ret (Ref 0, Str ''x'') builtinFrames"
    by (simp add: assignmentTarget_def builtinFrames_def store_defs)
  have entry: "Str ''x'' = Str ''__proto__'' \<or> isPrimative valuePrimitives (Ref 0)
      \<or> (\<exists>a k v. Ref 0 = Ref a \<and> toKey (Str ''x'') = Some k
            \<and> lookupEntry builtinFrames a k = Some (v, False))"
    by (simp add: builtinFrames_def store_defs)
  from denied_write_is_silent_noop [OF target entry]
  show "setValue (Suc 1) valuePrimitives 9 1 (Ref 1) (Identifier ''x'') (Some (Literal (Num 1)))
     (Some ''='') builtinFrames = Ret Undefined builtinFrames"
    by simp
next
  have target: "assignmentTarget 1 valuePrimitives 9 1 (Ref 1)
      (MemberExpression (Literal (Num 5)) (Identifier ''p'') False) builtinFrames
        = Ret (Num 5, Str ''p'') builtinFrames"
    by (simp add: assignmentTarget_def getName_def)
  have primitive: "Str ''p'' = Str ''__proto__'' \<or> isPrimative valuePrimitives (Num 5)
      \<or> (\<exists>a k v. Num 5 = Ref a \<and> toKey (Str ''p'') = Some k
            \<and> lookupEntry builtinFrames a k = Some (v, False))"
    by (simp add: valuePrimitives_def)
  from denied_write_is_silent_noop [OF target primitive]
  show "setValue (Suc 1) valuePrimitives 9 1 (Ref 1)
       (MemberExpression (Literal (Num 5)) (Identifier ''p'') False) (Some (Literal (Num 1)))
       (Some ''='') builtinFrames = Ret Undefined builtinFrames"
    by simp
next
  have target: "assignmentTarget 1 valuePrimitives 9 1 (Ref 1) (Identifier ''__proto__'')
      builtinFrames = Ret (Ref 0, Str ''__proto__'') builtinFrames"
    by (simp add: assignmentTarget_def builtinFrames_def store_defs)
  have name: "Str ''__proto__'' = Str ''__proto__'' \<or> isPrimative valuePrimitives (Ref 0)
      \<or> (\<exists>a k v. Ref 0 = Ref a \<and> toKey (Str ''__proto__'') = Some k
            \<and> lookupEntry builtinFrames a k = Some (v, False))"
    by simp
  from denied_write_is_silent_noop [OF target name]
  show "setValue (Suc 1) valuePrimitives 9 1 (Ref 1) (Identifier ''__proto__'')
       (Some (Literal (Num 1))) (Some ''+='') builtinFrames = Ret Undefined builtinFrames"
    by simp
qed

text \<open>
  C7 as stated fails where an enumerable entry shadows a non-enumerable one: the parent
  frame holds a non-enumerable \<^verbatim>\<open>x\<close>, so the name exists as a non-enumerable entry in
  the prototype chain of the current frame, and \<^verbatim>\<open>var x; x = 1; x\<close> writes the frame's
  own \<^verbatim>\<open>x\<close> all the same: the value read back is 1.
\<close>

theorem shadowed_entry_is_written:
  "result (safeEval 10 valuePrimitives shadowWrite (Some 0) builtinParent) = Some (Inr (Num 1))"
  by (simp add: shadowWrite_def builtinParent_def model_defs del: Suc_numeral)




text \<open>Through \<^verbatim>\<open>safeEval\<close>: \<^verbatim>\<open>function h(){ return this } h()\<close> gives \<^verbatim>\<open>null\<close>, and with
  \<^verbatim>\<open>h.g = h; h.g()\<close> the call gives the function object \<^verbatim>\<open>h\<close>.\<close>

lemma this_examples:
  "result (safeEval 20 valuePrimitives plainCall None []) = Some (Inr Null)
   \<and> result (safeEval 20 valuePrimitives memberCall None []) = Some (Inr (Ref 2))"
  by (simp add: plainCall_def memberCall_def model_defs del: Suc_numeral)

end
